theory Spec2Isabelle
  imports Main "HOL-Library.Word"
begin

section \<open>Byte strings and the standard-library pieces the cursor codec calls\<close>

text \<open>
  Go's \<open>[]byte\<close> is a list of 8-bit words, Go's \<open>int64\<close> a 64-bit word read with
  \<open>sint\<close>, and a Go \<open>string\<close> (a byte sequence) an Isabelle \<open>string\<close>.
\<close>

type_synonym byte = "8 word"
type_synonym int64 = "64 word"

datatype panic = IndexOutOfRange | TypeAssertionFailed

subsection \<open>\<open>math/big\<close>: \<open>Int.Bytes\<close>, \<open>Int.SetBytes\<close>, \<open>Int.Int64\<close>\<close>

text \<open>
  \<open>big.NewInt(x).Bytes()\<close> is the absolute value of \<open>x\<close> as a big-endian byte slice
  without leading zero bytes; zero gives the empty slice.
\<close>

function nat_Bytes :: "nat \<Rightarrow> byte list" where
  "nat_Bytes n = (if n = 0 then [] else nat_Bytes (n div 256) @ [word_of_nat (n mod 256)])"
  by pat_completeness auto
termination
  by (relation "measure (\<lambda>n. n)") auto

declare nat_Bytes.simps [simp del]

definition big_Bytes :: "int64 \<Rightarrow> byte list" where
  "big_Bytes x = nat_Bytes (nat \<bar>sint x\<bar>)"

text \<open>\<open>SetBytes\<close> reads a big-endian unsigned integer of any length.\<close>

definition big_SetBytes :: "byte list \<Rightarrow> nat" where
  "big_SetBytes bs = foldl (\<lambda>acc b. acc * 256 + unat b) 0 bs"

text \<open>
  \<open>Int64()\<close> of a non-negative big integer keeps its low 64 bits and reads them as a
  two's-complement \<open>int64\<close>.
\<close>

definition big_Int64 :: "nat \<Rightarrow> int64" where
  "big_Int64 n = word_of_nat n"

subsection \<open>\<open>bytes.Split\<close> with a one-byte separator\<close>

text \<open>
  \<open>bytes.Split(s, sep)\<close> cuts \<open>s\<close> at \<^emph>\<open>every\<close> occurrence of \<open>sep\<close>; the result always
  has at least one element (the empty slice splits into one empty part).
\<close>

fun bytes_Split :: "byte list \<Rightarrow> byte \<Rightarrow> byte list list" where
  "bytes_Split [] sep = [[]]"
| "bytes_Split (b # bs) sep =
     (if b = sep then [] # bytes_Split bs sep
      else (case bytes_Split bs sep of
              [] \<Rightarrow> [[b]]
            | p # ps \<Rightarrow> (b # p) # ps))"

subsection \<open>\<open>encoding/base64\<close>: \<open>URLEncoding\<close>\<close>

definition encodeURL :: string where
  "encodeURL = ''ABCDEFGHIJKLMNOPQRSTUVWXYZabcdefghijklmnopqrstuvwxyz0123456789-_''"

definition padChar :: char where
  "padChar = CHR ''=''"

definition encode6 :: "nat \<Rightarrow> char" where
  "encode6 v = encodeURL ! (v mod 64)"

text \<open>
  The encoder packs three bytes into a 24-bit value and emits four alphabet characters;
  a final block of one or two bytes is padded with \<open>=\<close>.
\<close>

fun EncodeToString :: "byte list \<Rightarrow> string" where
  "EncodeToString (b0 # b1 # b2 # rest) =
     (let val = unat b0 * 65536 + unat b1 * 256 + unat b2 in
        encode6 (val div 262144) # encode6 (val div 4096) # encode6 (val div 64) # encode6 val
          # EncodeToString rest)"
| "EncodeToString [b0, b1] =
     (let val = unat b0 * 65536 + unat b1 * 256 in
        [encode6 (val div 262144), encode6 (val div 4096), encode6 (val div 64), padChar])"
| "EncodeToString [b0] =
     (let val = unat b0 * 65536 in
        [encode6 (val div 262144), encode6 (val div 4096), padChar, padChar])"
| "EncodeToString [] = []"

fun decodeMap_from :: "string \<Rightarrow> nat \<Rightarrow> char \<Rightarrow> nat option" where
  "decodeMap_from [] i c = None"
| "decodeMap_from (a # as) i c = (if a = c then Some i else decodeMap_from as (i + 1) c)"

definition decodeMap :: "char \<Rightarrow> nat option" where
  "decodeMap c = decodeMap_from encodeURL 0 c"

definition quantum_bytes :: "nat \<Rightarrow> nat \<Rightarrow> nat \<Rightarrow> nat \<Rightarrow> byte list" where
  "quantum_bytes s0 s1 s2 s3 =
     (let val = s0 * 262144 + s1 * 4096 + s2 * 64 + s3 in
        [word_of_nat (val div 65536), word_of_nat (val div 256), word_of_nat val])"

text \<open>
  The decoder reads quanta of four characters. A quantum may end in \<open>==\<close> or \<open>=\<close> only
  when it is the last one; any other character outside the alphabet, an incomplete
  quantum, or anything after the padding is a \<open>CorruptInputError\<close> (\<open>None\<close>). The
  encoding is not strict: the unused low bits of a padded quantum are not checked.
\<close>

fun decode_quanta :: "string \<Rightarrow> byte list option" where
  "decode_quanta [] = Some []"
| "decode_quanta (c0 # c1 # c2 # c3 # rest) =
     (case (decodeMap c0, decodeMap c1) of
        (Some s0, Some s1) \<Rightarrow>
          (case decodeMap c2 of
             Some s2 \<Rightarrow>
               (case decodeMap c3 of
                  Some s3 \<Rightarrow>
                    (case decode_quanta rest of
                       Some bs \<Rightarrow> Some (quantum_bytes s0 s1 s2 s3 @ bs)
                     | None \<Rightarrow> None)
                | None \<Rightarrow>
                    if c3 = padChar \<and> rest = []
                    then Some (take 2 (quantum_bytes s0 s1 s2 0))
                    else None)
           | None \<Rightarrow>
               if c2 = padChar \<and> c3 = padChar \<and> rest = []
               then Some (take 1 (quantum_bytes s0 s1 0 0))
               else None)
      | _ \<Rightarrow> None)"
| "decode_quanta _ = None"

text \<open>Carriage returns and line feeds are skipped wherever they stand.\<close>

definition DecodeString :: "string \<Rightarrow> byte list option" where
  "DecodeString s = decode_quanta (filter (\<lambda>c. c \<noteq> CHR 0x0A \<and> c \<noteq> CHR 0x0D) s)"

section \<open>Cursor codec (\<open>ogc/features/domain/cursor.go\<close>)\<close>

definition separator :: byte where
  "separator = 0x7C"

type_synonym EncodedCursor = string

record DecodedCursor =
  FID :: int64
  FiltersChecksum :: "byte list"

record PrevNextFID =
  Prev :: int64
  Next :: int64

record Cursors =
  PrevC :: EncodedCursor
  NextC :: EncodedCursor
  HasPrev :: bool
  HasNext :: bool

definition encodeCursor :: "int64 \<Rightarrow> byte list \<Rightarrow> EncodedCursor" where
  "encodeCursor fid filtersChecksum =
     (let fidAsBytes = big_Bytes fid;
          cursor = fidAsBytes @ [separator];
          cursor = cursor @ filtersChecksum
      in EncodeToString cursor)"

definition NewCursors :: "PrevNextFID \<Rightarrow> byte list \<Rightarrow> Cursors" where
  "NewCursors fid filtersChecksum =
     \<lparr> PrevC = encodeCursor (Prev fid) filtersChecksum,
       NextC = encodeCursor (Next fid) filtersChecksum,
       HasPrev = (0 <s Prev fid),
       HasNext = (0 <s Next fid) \<rparr>"

text \<open>
  \<open>Decode\<close> returns a plain \<open>DecodedCursor\<close> in Go; the two slice reads
  \<open>decodedParts[0]\<close> and \<open>decodedParts[1]\<close> could panic, so the model returns a sum and
  the reads are written with their range checks. The guards \<open>len(decoded) < 1\<close> after
  the split and the second \<open>err != nil\<close> are kept although they can never fire there.
\<close>

definition Decode :: "EncodedCursor \<Rightarrow> byte list \<Rightarrow> panic + DecodedCursor" where
  "Decode c filtersChecksum =
     (let val = c in
      if val = [] then Inr \<lparr>FID = 0, FiltersChecksum = filtersChecksum\<rparr>
      else
        (case DecodeString val of
           None \<Rightarrow> Inr \<lparr>FID = 0, FiltersChecksum = filtersChecksum\<rparr>
         | Some decoded \<Rightarrow>
             if length decoded = 0 then Inr \<lparr>FID = 0, FiltersChecksum = filtersChecksum\<rparr>
             else
               (let decodedParts = bytes_Split decoded separator in
                if length decoded < 1 then Inr \<lparr>FID = 0, FiltersChecksum = filtersChecksum\<rparr>
                else
                  (case decodedParts of
                     [] \<Rightarrow> Inl IndexOutOfRange
                   | part0 # others \<Rightarrow>
                       (let fid = big_Int64 (big_SetBytes part0);
                            fid = (if fid <s 0 then 0 else fid)
                        in
                          (case others of
                             [] \<Rightarrow> Inr \<lparr>FID = fid, FiltersChecksum = filtersChecksum\<rparr>
                           | part1 # _ \<Rightarrow>
                               if part1 \<noteq> filtersChecksum
                               then Inr \<lparr>FID = 0, FiltersChecksum = filtersChecksum\<rparr>
                               else Inr \<lparr>FID = fid, FiltersChecksum = filtersChecksum\<rparr>))))))"

section \<open>Query parameters of the features handler (\<open>ogc/features/main.go\<close>)\<close>

subsection \<open>\<open>strconv.Atoi\<close> on a 64-bit platform\<close>

text \<open>
  Go's \<open>int\<close> is 64 bits wide here; \<open>parseLimit\<close> only compares and copies it, so it is
  an \<open>int\<close> whose range \<open>Atoi\<close> guarantees. \<open>Atoi\<close> is \<open>ParseInt(s, 10, 0)\<close> (its fast path
  for short strings computes the same result): an optional sign, then \<open>ParseUint\<close>, which
  stops at the first byte that is no digit with a syntax error and at the first overflow
  with a range error.
\<close>

datatype NumError = ErrSyntax | ErrRange

definition isDigit :: "char \<Rightarrow> bool" where
  "isDigit c = (48 \<le> (of_char c :: nat) \<and> (of_char c :: nat) \<le> 57)"

definition maxUint64 :: nat where
  "maxUint64 = 18446744073709551615"

fun ParseUint_loop :: "nat \<Rightarrow> string \<Rightarrow> nat \<times> NumError option" where
  "ParseUint_loop n [] = (n, None)"
| "ParseUint_loop n (c # cs) =
     (if \<not> isDigit c then (0, Some ErrSyntax)
      else if n \<ge> maxUint64 div 10 + 1 then (maxUint64, Some ErrRange)
      else (let n1 = n * 10 + (of_char c - 48) in
              if n1 > maxUint64 then (maxUint64, Some ErrRange)
              else ParseUint_loop n1 cs))"

definition ParseUint :: "string \<Rightarrow> nat \<times> NumError option" where
  "ParseUint s = (if s = [] then (0, Some ErrSyntax) else ParseUint_loop 0 s)"

definition ParseInt :: "string \<Rightarrow> int \<times> NumError option" where
  "ParseInt s =
     (if s = [] then (0, Some ErrSyntax)
      else
        (let neg = (hd s = CHR ''-'');
             s1 = (if hd s = CHR ''+'' \<or> hd s = CHR ''-'' then tl s else s);
             (un, err) = ParseUint s1;
             cutoff = (9223372036854775808 :: nat)
         in if err = Some ErrSyntax then (0, err)
            else if \<not> neg \<and> un \<ge> cutoff then (int cutoff - 1, Some ErrRange)
            else if neg \<and> un > cutoff then (- int cutoff, Some ErrRange)
            else (if neg then - int un else int un, None)))"

definition Atoi :: "string \<Rightarrow> int \<times> NumError option" where
  "Atoi s = ParseInt s"

subsection \<open>\<open>net/url\<close>: \<open>Values.Get\<close>\<close>

type_synonym Values = "string \<rightharpoonup> string list"

definition Values_Get :: "Values \<Rightarrow> string \<Rightarrow> string" where
  "Values_Get v key = (case v key of None \<Rightarrow> [] | Some [] \<Rightarrow> [] | Some (x # _) \<Rightarrow> x)"

subsection \<open>\<open>Features.parseLimit\<close>, \<open>Features.parseDateTime\<close>\<close>

text \<open>
  Modelled from the spec: the constants that name the query parameters are declared
  outside the files at hand; the route takes the parameters \<open>limit\<close>, \<open>bbox\<close>,
  \<open>datetime\<close> and \<open>cursor\<close>.
\<close>

definition limitParam :: string where "limitParam = ''limit''"
definition bboxParam :: string where "bboxParam = ''bbox''"
definition dateTimeParam :: string where "dateTimeParam = ''datetime''"
definition cursorParam :: string where "cursorParam = ''cursor''"

record Limit =
  Limit_Default :: int
  Limit_Max :: int

definition err_limit_numeric :: string where
  "err_limit_numeric = ''limit must be numeric''"

definition err_limit_negative :: string where
  "err_limit_negative = ''limit can'' @ [CHR 0x27] @ ''t be negative''"

definition parseLimit :: "Limit \<Rightarrow> Values \<Rightarrow> int \<times> string option" where
  "parseLimit cfg params =
     (let limit = Limit_Default cfg;
          err = None;
          (limit, err) =
            (if Values_Get params limitParam \<noteq> [] then
               (let (limit, aerr) = Atoi (Values_Get params limitParam);
                    err = (if aerr \<noteq> None then Some err_limit_numeric else None);
                    limit = (if limit > Limit_Max cfg then Limit_Max cfg else limit)
                in (limit, err))
             else (limit, err));
          err = (if limit < 0 then Some err_limit_negative else err)
      in (limit, err))"

definition parseDateTime :: "Values \<Rightarrow> string option" where
  "parseDateTime params =
     (if Values_Get params dateTimeParam \<noteq> []
      then Some ''datetime param is currently not supported''
      else None)"

section \<open>Engine (\<open>engine/engine.go\<close>)\<close>

subsection \<open>\<open>net/http\<close>: headers, responses, \<open>http.Error\<close>\<close>

text \<open>
  \<open>http.Header\<close> is \<open>map[string][]string\<close>. \<open>Header.Set\<close> and \<open>Header.Get\<close> canonicalise
  the key; every key used below is already in canonical form. A key bound to the empty
  slice has no value: \<open>Get\<close> returns the empty string and no header line is sent.
\<close>

type_synonym Header = "string \<rightharpoonup> string list"

definition Header_Set :: "Header \<Rightarrow> string \<Rightarrow> string \<Rightarrow> Header" where
  "Header_Set h key v = h(key \<mapsto> [v])"

definition Header_Get :: "Header \<Rightarrow> string \<Rightarrow> string" where
  "Header_Get h key = (case h key of None \<Rightarrow> [] | Some [] \<Rightarrow> [] | Some (x # _) \<Rightarrow> x)"

definition Header_Values :: "Header \<Rightarrow> string \<Rightarrow> string list" where
  "Header_Values h key = (case h key of None \<Rightarrow> [] | Some vs \<Rightarrow> vs)"

definition StatusBadRequest :: int where "StatusBadRequest = 400"
definition StatusNotFound :: int where "StatusNotFound = 404"
definition StatusNoContent :: int where "StatusNoContent = 204"
definition StatusInternalServerError :: int where "StatusInternalServerError = 500"
definition StatusBadGateway :: int where "StatusBadGateway = 502"

text \<open>The upstream response handed to \<open>ModifyResponse\<close>.\<close>

record Response =
  StatusCode :: int
  RHeader :: Header
  Body :: "byte list"

text \<open>
  An \<open>http.ResponseWriter\<close>: the header map, the status once it is written, and the body
  written so far.
\<close>

record ResponseWriter =
  WHeader :: Header
  WStatus :: "int option"
  WBody :: string

definition WriteHeader :: "ResponseWriter \<Rightarrow> int \<Rightarrow> ResponseWriter" where
  "WriteHeader w code = (if WStatus w = None then w\<lparr>WStatus := Some code\<rparr> else w)"

definition Write :: "ResponseWriter \<Rightarrow> string \<Rightarrow> ResponseWriter" where
  "Write w body =
     (let w = (if WStatus w = None then w\<lparr>WStatus := Some 200\<rparr> else w)
      in w\<lparr>WBody := WBody w @ body\<rparr>)"

definition http_Error :: "ResponseWriter \<Rightarrow> string \<Rightarrow> int \<Rightarrow> ResponseWriter" where
  "http_Error w msg code =
     (let w = w\<lparr>WHeader := Header_Set (WHeader w) ''Content-Type'' ''text/plain; charset=utf-8''\<rparr>;
          w = w\<lparr>WHeader := Header_Set (WHeader w) ''X-Content-Type-Options'' ''nosniff''\<rparr>;
          w = WriteHeader w code
      in Write w (msg @ [CHR 0x0A]))"

subsection \<open>\<open>Engine.ReverseProxy\<close> and \<open>removeBody\<close>\<close>

definition removeBody :: "Response \<Rightarrow> Response" where
  "removeBody proxyRes =
     (let proxyRes = proxyRes\<lparr>Body := []\<rparr>;
          proxyRes = proxyRes\<lparr>RHeader := (RHeader proxyRes)(''Content-Length'' \<mapsto> [''0''])\<rparr>;
          proxyRes = proxyRes\<lparr>RHeader := (RHeader proxyRes)(''Content-Type'' \<mapsto> [])\<rparr>
      in proxyRes)"

text \<open>The \<open>modifyResponse\<close> closure of \<open>ReverseProxy\<close>, with the two captured arguments.\<close>

definition modifyResponse :: "bool \<Rightarrow> string \<Rightarrow> Response \<Rightarrow> Response" where
  "modifyResponse prefer204 contentTypeOverwrite proxyRes =
     (if prefer204 then
        (let proxyRes =
               (if StatusCode proxyRes = StatusNotFound
                then removeBody (proxyRes\<lparr>StatusCode := StatusNoContent\<rparr>)
                else proxyRes);
             proxyRes =
               (if contentTypeOverwrite \<noteq> []
                then proxyRes\<lparr>RHeader := Header_Set (RHeader proxyRes) ''Content-Type'' contentTypeOverwrite\<rparr>
                else proxyRes)
         in proxyRes)
      else proxyRes)"

text \<open>
  The \<open>rewrite\<close> closure of \<open>ReverseProxy\<close> works on the pair of the inbound request and
  the outbound request that \<open>httputil.ReverseProxy\<close> prepared from it.
  \<open>SetXForwarded\<close> writes the client address (when \<open>RemoteAddr\<close> has one), the inbound
  host and the scheme.
\<close>

record HTTPRequest =
  ReqURL :: string
  ReqHost :: string
  ReqHeader :: Header
  RemoteIP :: "string option"
  ReqTLS :: bool

record ProxyRequest =
  In :: HTTPRequest
  Out :: HTTPRequest

definition SetXForwarded :: "ProxyRequest \<Rightarrow> ProxyRequest" where
  "SetXForwarded r =
     (let h = ReqHeader (Out r);
          h = (case RemoteIP (In r) of
                 Some clientIP \<Rightarrow>
                   (let prior = Header_Values h ''X-Forwarded-For'';
                        clientIP = (if prior \<noteq> []
                                    then foldr (\<lambda>p acc. p @ '', '' @ acc) prior clientIP
                                    else clientIP)
                    in Header_Set h ''X-Forwarded-For'' clientIP)
               | None \<Rightarrow> h(''X-Forwarded-For'' := None));
          h = Header_Set h ''X-Forwarded-Host'' (ReqHost (In r));
          h = Header_Set h ''X-Forwarded-Proto'' (if ReqTLS (In r) then ''https'' else ''http'')
      in r\<lparr>Out := (Out r)\<lparr>ReqHeader := h\<rparr>\<rparr>)"

definition rewrite :: "string \<Rightarrow> string \<Rightarrow> ProxyRequest \<Rightarrow> ProxyRequest" where
  "rewrite baseURL target r =
     (let r = r\<lparr>Out := (Out r)\<lparr>ReqURL := target\<rparr>\<rparr>;
          r = r\<lparr>Out := (Out r)\<lparr>ReqHost := []\<rparr>\<rparr>;
          r = SetXForwarded r;
          r = r\<lparr>Out := (Out r)\<lparr>ReqHeader := Header_Set (ReqHeader (Out r)) ''X-BaseUrl'' baseURL\<rparr>\<rparr>
      in r)"

text \<open>
  \<open>httputil.ReverseProxy.ServeHTTP\<close> sends the rewritten outbound request upstream; a
  transport error is answered with 502, otherwise the response goes through
  \<open>modifyResponse\<close> and its status, header values and body are copied to the client. The
  upstream server is the parameter \<open>transport\<close>.
\<close>

definition ReverseProxy ::
  "(HTTPRequest \<Rightarrow> string + Response) \<Rightarrow> string \<Rightarrow> ProxyRequest \<Rightarrow> string \<Rightarrow> bool \<Rightarrow> string
     \<Rightarrow> Response" where
  "ReverseProxy transport baseURL r target prefer204 contentTypeOverwrite =
     (case transport (Out (rewrite baseURL target r)) of
        Inl err \<Rightarrow> \<lparr>StatusCode = StatusBadGateway, RHeader = Map.empty, Body = []\<rparr>
      | Inr proxyRes \<Rightarrow> modifyResponse prefer204 contentTypeOverwrite proxyRes)"

subsection \<open>\<open>Engine.RenderAndServePage\<close>\<close>

text \<open>
  Modelled from the spec: the formats of the content negotiation are declared outside
  the files at hand; the handlers tell HTML, JSON and JSON-FG from every other format.
\<close>

datatype Format = FormatHTML | FormatJSON | FormatJSONFG | FormatOther string

record TemplateKey =
  Name :: string
  Directory :: string
  Format :: Format
  InstanceName :: string
  Language :: string

text \<open>
  The parsed template is an \<open>interface{}\<close> value: \<open>None\<close> is the nil interface, otherwise
  it holds an \<open>*html/template.Template\<close> or a \<open>*text/template.Template\<close> (named by a
  number here).
\<close>

datatype ParsedTemplate = HTMLTemplate nat | TextTemplate nat

text \<open>
  The collaborators of the engine that the page handlers call: the OpenAPI validator,
  the template store and the content negotiation. Their code is outside the files at
  hand, so they are fields of the engine.
\<close>

record ('r, 'p, 'b) Engine =
  validateRequest :: "'r \<Rightarrow> string option"
  getParsedTemplate :: "TemplateKey \<Rightarrow> ParsedTemplate option \<times> string option"
  renderHTMLTemplate :: "nat \<Rightarrow> 'p \<Rightarrow> 'b \<Rightarrow> string"
  renderNonHTMLTemplate :: "nat \<Rightarrow> 'p \<Rightarrow> TemplateKey \<Rightarrow> string"
  formatToMediaType :: "Format \<Rightarrow> string"
  validateResponse :: "string \<Rightarrow> string \<Rightarrow> 'r \<Rightarrow> string option"

text \<open>How a handler ends: it returns, or a panic unwinds it.\<close>

datatype completion = Returned | Panicked panic

text \<open>
  The unchecked type assertions \<open>parsedTemplate.(*htmltemplate.Template)\<close> and
  \<open>parsedTemplate.(*texttemplate.Template)\<close> panic on the nil interface and on a value of
  the other type.
\<close>

definition RenderAndServePage ::
  "('r, 'p, 'b) Engine \<Rightarrow> ResponseWriter \<Rightarrow> 'r \<Rightarrow> TemplateKey \<Rightarrow> 'p \<Rightarrow> 'b
     \<Rightarrow> ResponseWriter \<times> completion" where
  "RenderAndServePage e w r key params breadcrumbs =
     (case validateRequest e r of
        Some err \<Rightarrow> (http_Error w err StatusBadRequest, Returned)
      | None \<Rightarrow>
          (let (parsedTemplate, err) = getParsedTemplate e key;
               w = (case err of
                      Some msg \<Rightarrow> http_Error w msg StatusInternalServerError
                    | None \<Rightarrow> w);
               rendered =
                 (if Format key = FormatHTML then
                    (case parsedTemplate of
                       Some (HTMLTemplate htmlTmpl) \<Rightarrow>
                         Inr (renderHTMLTemplate e htmlTmpl params breadcrumbs)
                     | _ \<Rightarrow> Inl TypeAssertionFailed)
                  else
                    (case parsedTemplate of
                       Some (TextTemplate jsonTmpl) \<Rightarrow>
                         Inr (renderNonHTMLTemplate e jsonTmpl params key)
                     | _ \<Rightarrow> Inl TypeAssertionFailed))
           in
             (case rendered of
                Inl p \<Rightarrow> (w, Panicked p)
              | Inr output \<Rightarrow>
                  (let contentType = formatToMediaType e (Format key) in
                     (case validateResponse e contentType output r of
                        Some msg \<Rightarrow> (http_Error w msg StatusInternalServerError, Returned)
                      | None \<Rightarrow>
                          (let w = (if contentType \<noteq> []
                                    then w\<lparr>WHeader := Header_Set (WHeader w) ''Content-Type'' contentType\<rparr>
                                    else w)
                           in (Write w output, Returned)))))))"

text \<open>
  Modelled from the spec: \<open>Templates.getParsedTemplate\<close> is not among the files at hand.
  The store keeps the parsed templates in a map and looks the key up; a key that is not
  there gives no template and an error.
\<close>

definition getParsedTemplate_store ::
  "(TemplateKey \<rightharpoonup> ParsedTemplate) \<Rightarrow> TemplateKey \<Rightarrow> ParsedTemplate option \<times> string option" where
  "getParsedTemplate_store store key =
     (case store key of
        None \<Rightarrow> (None, Some (''no parsed template with name '' @ Name key))
      | Some t \<Rightarrow> (Some t, None))"

section \<open>Feature mapper (package \<open>domain\<close>)\<close>

text \<open>
  A value scanned from a row is an \<open>interface{}\<close>: nil, or a value of one of the types
  the driver hands out. \<open>VOther\<close> stands for any further dynamic type and carries its
  name. A \<open>float64\<close> is kept as its 64 bits, a \<open>time.Time\<close> as a number; the mapper only
  copies them.
\<close>

type_synonym float64 = "64 word"

datatype sqlvalue =
    VNil
  | VInt64 int64
  | VFloat64 float64
  | VBytes "byte list"
  | VString string
  | VBool bool
  | VTime int
  | VOther string

record 'g Feature =
  ID :: int64
  Geometry :: "'g option"
  Properties :: "string \<rightharpoonup> sqlvalue"

definition string_of_bytes :: "byte list \<Rightarrow> string" where
  "string_of_bytes bs = map (\<lambda>b. char_of (unat b)) bs"

definition typeName :: "sqlvalue \<Rightarrow> string" where
  "typeName v =
     (case v of
        VNil \<Rightarrow> ''<nil>'' | VInt64 _ \<Rightarrow> ''int64'' | VFloat64 _ \<Rightarrow> ''float64''
      | VBytes _ \<Rightarrow> ''[]uint8'' | VString _ \<Rightarrow> ''string'' | VBool _ \<Rightarrow> ''bool''
      | VTime _ \<Rightarrow> ''time.Time'' | VOther n \<Rightarrow> n)"

definition boundingBoxColumns :: "string list" where
  "boundingBoxColumns = [''minx'', ''miny'', ''maxx'', ''maxy'', ''min_zoom'', ''max_zoom'']"

text \<open>
  \<open>mapColumnsToFeature\<close> fills the feature in place and returns an error; the model
  returns the feature as the call leaves it together with the error, or the panic that
  unwinds the call. The loop \<open>for i, columnName := range columns\<close> reads \<open>values[i]\<close>,
  which panics when the row has fewer values than columns. The conversion
  \<open>columnValue.(int64)\<close> of the id column is unchecked.
\<close>

fun mapColumnsToFeature ::
  "'g Feature \<Rightarrow> string list \<Rightarrow> sqlvalue list \<Rightarrow> string \<Rightarrow> string
     \<Rightarrow> (byte list \<Rightarrow> string + 'g) \<Rightarrow> panic + ('g Feature \<times> string option)" where
  "mapColumnsToFeature feature [] values fidColumn geomColumn geomMapper = Inr (feature, None)"
| "mapColumnsToFeature feature (columnName # columns) [] fidColumn geomColumn geomMapper =
     Inl IndexOutOfRange"
| "mapColumnsToFeature feature (columnName # columns) (columnValue # values)
       fidColumn geomColumn geomMapper =
     (if columnValue = VNil then
        mapColumnsToFeature feature columns values fidColumn geomColumn geomMapper
      else if columnName = fidColumn then
        (case columnValue of
           VInt64 n \<Rightarrow>
             mapColumnsToFeature (feature\<lparr>ID := n\<rparr>) columns values fidColumn geomColumn geomMapper
         | _ \<Rightarrow> Inl TypeAssertionFailed)
      else if columnName = geomColumn then
        (case columnValue of
           VBytes rawGeom \<Rightarrow>
             (case geomMapper rawGeom of
                Inl err \<Rightarrow>
                  Inr (feature, Some (''failed to map/decode geometry from datastore: '' @ err))
              | Inr mappedGeom \<Rightarrow>
                  mapColumnsToFeature (feature\<lparr>Geometry := Some mappedGeom\<rparr>) columns values
                    fidColumn geomColumn geomMapper)
         | _ \<Rightarrow>
             Inr (feature,
                  Some (''failed to read geometry from '' @ geomColumn @ '' column in datastore'')))
      else if columnName \<in> set boundingBoxColumns then
        mapColumnsToFeature feature columns values fidColumn geomColumn geomMapper
      else
        (case columnValue of
           VBytes v \<Rightarrow>
             mapColumnsToFeature
               (feature\<lparr>Properties := (Properties feature)(columnName \<mapsto> VString (string_of_bytes v))\<rparr>)
               columns values fidColumn geomColumn geomMapper
         | VInt64 v \<Rightarrow>
             mapColumnsToFeature
               (feature\<lparr>Properties := (Properties feature)(columnName \<mapsto> VInt64 v)\<rparr>)
               columns values fidColumn geomColumn geomMapper
         | VFloat64 v \<Rightarrow>
             mapColumnsToFeature
               (feature\<lparr>Properties := (Properties feature)(columnName \<mapsto> VFloat64 v)\<rparr>)
               columns values fidColumn geomColumn geomMapper
         | VTime v \<Rightarrow>
             mapColumnsToFeature
               (feature\<lparr>Properties := (Properties feature)(columnName \<mapsto> VTime v)\<rparr>)
               columns values fidColumn geomColumn geomMapper
         | VString v \<Rightarrow>
             mapColumnsToFeature
               (feature\<lparr>Properties := (Properties feature)(columnName \<mapsto> VString v)\<rparr>)
               columns values fidColumn geomColumn geomMapper
         | VBool v \<Rightarrow>
             mapColumnsToFeature
               (feature\<lparr>Properties := (Properties feature)(columnName \<mapsto> VBool v)\<rparr>)
               columns values fidColumn geomColumn geomMapper
         | _ \<Rightarrow>
             Inr (feature,
                  Some (''unexpected type for sqlite column data: '' @ columnName @ '': ''
                          @ typeName columnValue))))"

text \<open>
  An open \<open>sqlx.Rows\<close>: what \<open>Columns()\<close> returns, and for every \<open>Next()\<close> that is true
  what \<open>SliceScan()\<close> returns.
\<close>

record Rows =
  RColumns :: "string + string list"
  RScans :: "(string + sqlvalue list) list"

definition newFeature :: "'g Feature" where
  "newFeature = \<lparr>ID = 0, Geometry = None, Properties = Map.empty\<rparr>"

fun MapRows_loop ::
  "'g Feature list \<Rightarrow> (string + sqlvalue list) list \<Rightarrow> string list \<Rightarrow> string \<Rightarrow> string
     \<Rightarrow> (byte list \<Rightarrow> string + 'g) \<Rightarrow> panic + ('g Feature list \<times> string option)" where
  "MapRows_loop result [] columns fidColumn geomColumn geomMapper = Inr (result, None)"
| "MapRows_loop result (scan # rest) columns fidColumn geomColumn geomMapper =
     (case scan of
        Inl err \<Rightarrow> Inr (result, Some err)
      | Inr values \<Rightarrow>
          (case mapColumnsToFeature newFeature columns values fidColumn geomColumn geomMapper of
             Inl p \<Rightarrow> Inl p
           | Inr (feature, Some err) \<Rightarrow> Inr (result, Some err)
           | Inr (feature, None) \<Rightarrow>
               MapRows_loop (result @ [feature]) rest columns fidColumn geomColumn geomMapper))"

definition MapRowsToFeatures ::
  "Rows \<Rightarrow> string \<Rightarrow> string \<Rightarrow> (byte list \<Rightarrow> string + 'g)
     \<Rightarrow> panic + ('g Feature list \<times> string option)" where
  "MapRowsToFeatures rows fidColumn geomColumn geomMapper =
     (case RColumns rows of
        Inl err \<Rightarrow> Inr ([], Some err)
      | Inr columns \<Rightarrow> MapRows_loop [] (RScans rows) columns fidColumn geomColumn geomMapper)"

text \<open>
  Modelled from the spec: the datasource calls a \<open>MapRowsToFeatures\<close> with three results
  (features, a pointer to the previous and next feature id, error), which is not among
  the files at hand; the file at hand holds the two-result mapper above. Features and
  error are taken from that one. The pair is derived from the two synthetic columns
  \<open>prevfid\<close> and \<open>nextfid\<close> of one row of the result set, the first; a result set without
  rows gives no pair. A column that is null leaves the zero value.
\<close>

fun columnInt64 :: "string list \<Rightarrow> sqlvalue list \<Rightarrow> string \<Rightarrow> int64" where
  "columnInt64 (c # cs) (v # vs) name =
     (if c = name then (case v of VInt64 n \<Rightarrow> n | _ \<Rightarrow> 0) else columnInt64 cs vs name)"
| "columnInt64 _ _ name = 0"

definition prevNextOfRows :: "Rows \<Rightarrow> PrevNextFID option" where
  "prevNextOfRows rows =
     (case RColumns rows of
        Inl err \<Rightarrow> None
      | Inr columns \<Rightarrow>
          (case RScans rows of
             Inr values # _ \<Rightarrow>
               Some \<lparr>Prev = columnInt64 columns values ''prevfid'',
                     Next = columnInt64 columns values ''nextfid''\<rparr>
           | _ \<Rightarrow> None))"

definition MapRowsToFeaturesPrevNext ::
  "Rows \<Rightarrow> string \<Rightarrow> string \<Rightarrow> (byte list \<Rightarrow> string + 'g)
     \<Rightarrow> panic + ('g Feature list \<times> PrevNextFID option \<times> string option)" where
  "MapRowsToFeaturesPrevNext rows fidColumn geomColumn geomMapper =
     (case MapRowsToFeatures rows fidColumn geomColumn geomMapper of
        Inl p \<Rightarrow> Inl p
      | Inr (features, Some err) \<Rightarrow> Inr (features, None, Some err)
      | Inr (features, None) \<Rightarrow> Inr (features, prevNextOfRows rows, None))"

section \<open>GeoPackage datasource (package \<open>geopackage\<close>)\<close>

subsection \<open>Queries and their named parameters\<close>

text \<open>
  A query is the SQL text of one of the three templates of the datasource with the
  names that \<open>fmt.Sprintf\<close> fills in: the table, the id column and, for the bounding-box
  query, the geometry column. The named parameters are a \<open>map[string]any\<close>.
\<close>

datatype query =
    FeatureByFidQuery string string
  | DefaultQuery string string
  | BboxQuery string string string

datatype sqlarg = AInt int | AInt64 int64 | AFloat64 float64 | AString string

type_synonym sqlargs = "string \<rightharpoonup> sqlarg"

definition bboxSizeBig :: nat where
  "bboxSizeBig = 10000"

text \<open>
  \<open>geom.Extent\<close> is \<open>[4]float64\<close> in the order minx, miny, maxx, maxy. Encoding it as
  WKT is done by a library and can fail.
\<close>

type_synonym Extent = "float64 \<times> float64 \<times> float64 \<times> float64"

definition MinX :: "Extent \<Rightarrow> float64" where "MinX e = (case e of (a, b, c, d) \<Rightarrow> a)"
definition MinY :: "Extent \<Rightarrow> float64" where "MinY e = (case e of (a, b, c, d) \<Rightarrow> b)"
definition MaxX :: "Extent \<Rightarrow> float64" where "MaxX e = (case e of (a, b, c, d) \<Rightarrow> c)"
definition MaxY :: "Extent \<Rightarrow> float64" where "MaxY e = (case e of (a, b, c, d) \<Rightarrow> d)"

record FeatureOptions =
  Cursor :: DecodedCursor
  Limit :: int
  Bbox :: "Extent option"
  BboxCrs :: int

record featureTable =
  TableName :: string
  Identifier :: string
  GeometryColumnName :: string

subsection \<open>The database behind the datasource\<close>

text \<open>
  \<open>backend.getDB()\<close>: preparing a named statement may fail, and running it gives an
  error or an open row set.
\<close>

record DB =
  PrepareNamedContext :: "query \<Rightarrow> string option"
  QueryxContext :: "query \<Rightarrow> sqlargs \<Rightarrow> string + Rows"

text \<open>
  What SQLite computes for the three query texts, over feature tables whose id column
  is an integer and comes first. A row is its id and the values of the other columns.
  The spatial tests of the bounding-box query (the R-tree entry of a row overlaps the
  box, the \<open>minx..maxy\<close> columns of a row overlap the box, \<open>st_intersects\<close>) are
  computed by SQLite and spatialite from floating-point data; they are functions of the
  database here.
\<close>

type_synonym gpkg_row = "int64 \<times> sqlvalue list"

record gpkg_table =
  OtherColumns :: "string list"
  TableRows :: "gpkg_row list"

record sqlite =
  Tables :: "string \<rightharpoonup> gpkg_table"
  rtree_overlaps :: "sqlargs \<Rightarrow> gpkg_row \<Rightarrow> bool"
  btree_overlaps :: "sqlargs \<Rightarrow> gpkg_row \<Rightarrow> bool"
  st_intersects :: "sqlargs \<Rightarrow> gpkg_row \<Rightarrow> bool"

definition order_by_fid :: "gpkg_row list \<Rightarrow> gpkg_row list" where
  "order_by_fid rs = sort_key (\<lambda>r. sint (fst r)) rs"

text \<open>\<open>limit n\<close>: a negative \<open>n\<close> is no limit.\<close>

definition sql_limit :: "int \<Rightarrow> 'a list \<Rightarrow> 'a list" where
  "sql_limit n xs = (if n < 0 then xs else take (nat n) xs)"

text \<open>
  The window step \<open>nextprevfeat\<close>: over the rows ordered by id, \<open>lag(fid, limit)\<close> and
  \<open>lead(fid, limit)\<close> are the ids \<open>limit\<close> rows before and after, or null.
\<close>

definition nextprevfeat :: "nat \<Rightarrow> gpkg_row list \<Rightarrow> sqlvalue list list" where
  "nextprevfeat limit nextprev =
     (let ordered = order_by_fid nextprev in
        map (\<lambda>i. VInt64 (fst (ordered ! i)) # snd (ordered ! i)
                    @ [if limit \<le> i then VInt64 (fst (ordered ! (i - limit))) else VNil,
                       if i + limit < length ordered then VInt64 (fst (ordered ! (i + limit)))
                       else VNil])
            [0..<length ordered])"

definition select_page :: "int64 \<Rightarrow> int \<Rightarrow> gpkg_row list \<Rightarrow> gpkg_row list \<Rightarrow> sqlvalue list list" where
  "select_page fid limit next prev =
     sql_limit limit
       (filter (\<lambda>values. case values of VInt64 f # _ \<Rightarrow> sint fid \<le> sint f | _ \<Rightarrow> False)
          (nextprevfeat (nat limit) (next @ prev)))"

definition run_DefaultQuery :: "gpkg_table \<Rightarrow> int64 \<Rightarrow> int \<Rightarrow> sqlvalue list list" where
  "run_DefaultQuery t fid limit =
     (let next = sql_limit (limit + 1)
                   (order_by_fid (filter (\<lambda>r. sint fid \<le> sint (fst r)) (TableRows t)));
          prev = sql_limit limit
                   (rev (order_by_fid (filter (\<lambda>r. sint (fst r) < sint fid) (TableRows t))))
      in select_page fid limit next prev)"

definition run_BboxQuery :: "sqlite \<Rightarrow> sqlargs \<Rightarrow> gpkg_table \<Rightarrow> int64 \<Rightarrow> int \<Rightarrow> sqlvalue list list" where
  "run_BboxQuery s args t fid limit =
     (let small = (length (take bboxSizeBig (filter (rtree_overlaps s args) (TableRows t)))
                     < bboxSizeBig);
          rtree = filter (\<lambda>r. rtree_overlaps s args r \<and> st_intersects s args r) (TableRows t);
          btree = filter (\<lambda>r. btree_overlaps s args r \<and> st_intersects s args r) (TableRows t);
          next_bbox_rtree =
            sql_limit (if small then limit + 1 else 0)
              (order_by_fid (filter (\<lambda>r. sint fid \<le> sint (fst r)) rtree));
          next_bbox_btree =
            sql_limit (if \<not> small then limit + 1 else 0)
              (order_by_fid (filter (\<lambda>r. sint fid \<le> sint (fst r)) btree));
          next = next_bbox_rtree @ next_bbox_btree;
          prev_bbox_rtree =
            sql_limit (if small then limit else 0)
              (rev (order_by_fid (filter (\<lambda>r. sint (fst r) < sint fid) rtree)));
          prev_bbox_btree =
            sql_limit (if \<not> small then limit else 0)
              (rev (order_by_fid (filter (\<lambda>r. sint (fst r) < sint fid) btree)));
          prev = prev_bbox_rtree @ prev_bbox_btree
      in select_page fid limit next prev)"

definition run_FeatureByFidQuery :: "gpkg_table \<Rightarrow> int64 \<Rightarrow> sqlvalue list list" where
  "run_FeatureByFidQuery t fid =
     sql_limit 1 (map (\<lambda>r. VInt64 (fst r) # snd r) (filter (\<lambda>r. fst r = fid) (TableRows t)))"

definition open_rows :: "string list \<Rightarrow> sqlvalue list list \<Rightarrow> Rows" where
  "open_rows columns rs = \<lparr>RColumns = Inr columns, RScans = map Inr rs\<rparr>"

text \<open>
  Running a query: an unknown table or a missing parameter is an error, and so is a
  negative offset of \<open>lag\<close> and \<open>lead\<close>.
\<close>

definition sqlite_QueryxContext :: "sqlite \<Rightarrow> query \<Rightarrow> sqlargs \<Rightarrow> string + Rows" where
  "sqlite_QueryxContext s q args =
     (case q of
        FeatureByFidQuery tableName fidColumn \<Rightarrow>
          (case (Tables s tableName, args ''fid'') of
             (Some t, Some (AInt64 fid)) \<Rightarrow>
               Inr (open_rows (fidColumn # OtherColumns t) (run_FeatureByFidQuery t fid))
           | _ \<Rightarrow> Inl ''sqlite: query failed'')
      | DefaultQuery tableName fidColumn \<Rightarrow>
          (case (Tables s tableName, args ''fid'', args ''limit'') of
             (Some t, Some (AInt64 fid), Some (AInt limit)) \<Rightarrow>
               if limit < 0 then Inl ''sqlite: query failed''
               else Inr (open_rows (fidColumn # OtherColumns t @ [''prevfid'', ''nextfid''])
                           (run_DefaultQuery t fid limit))
           | _ \<Rightarrow> Inl ''sqlite: query failed'')
      | BboxQuery tableName fidColumn geomColumn \<Rightarrow>
          (case (Tables s tableName, args ''fid'', args ''limit'') of
             (Some t, Some (AInt64 fid), Some (AInt limit)) \<Rightarrow>
               if limit < 0 then Inl ''sqlite: query failed''
               else Inr (open_rows (fidColumn # OtherColumns t @ [''prevfid'', ''nextfid''])
                           (run_BboxQuery s args t fid limit))
           | _ \<Rightarrow> Inl ''sqlite: query failed''))"

definition sqlite_DB :: "sqlite \<Rightarrow> DB" where
  "sqlite_DB s =
     \<lparr>PrepareNamedContext = (\<lambda>q. None), QueryxContext = sqlite_QueryxContext s\<rparr>"

subsection \<open>\<open>GeoPackage.GetFeatures\<close> and \<open>GeoPackage.GetFeature\<close>\<close>

text \<open>
  The datasource: its database, the name of the id column, and the feature table of
  every collection. Decoding a GeoPackage geometry (\<open>readGpkgGeometry\<close>) and encoding
  a box as WKT are library calls that can fail; they are fields here. The query
  timeout is left out. The error messages that print the SQL text or the collections
  of the GeoPackage are shortened to their fixed part.
\<close>

record 'g GeoPackage =
  backend :: DB
  fidColumn :: string
  featureTableByCollectionID :: "string \<rightharpoonup> featureTable"
  readGpkgGeometry :: "byte list \<Rightarrow> string + 'g"
  wkt_EncodeString :: "Extent \<Rightarrow> string + string"

record 'g FeatureCollection =
  NumberReturned :: nat
  Features :: "'g Feature list"

definition noCursors :: Cursors where
  "noCursors = \<lparr>PrevC = [], NextC = [], HasPrev = False, HasNext = False\<rparr>"

definition makeDefaultQuery ::
  "'g GeoPackage \<Rightarrow> featureTable \<Rightarrow> FeatureOptions \<Rightarrow> query \<times> sqlargs \<times> string option" where
  "makeDefaultQuery g table opt =
     (DefaultQuery (TableName table) (fidColumn g),
      [''fid'' \<mapsto> AInt64 (FID (Cursor opt)), ''limit'' \<mapsto> AInt (Limit opt)],
      None)"

definition makeBboxQuery ::
  "'g GeoPackage \<Rightarrow> featureTable \<Rightarrow> FeatureOptions \<Rightarrow> Extent \<Rightarrow> query \<times> sqlargs \<times> string option" where
  "makeBboxQuery g table opt bbox =
     (let bboxQuery = BboxQuery (TableName table) (fidColumn g) (GeometryColumnName table) in
        (case wkt_EncodeString g bbox of
           Inl err \<Rightarrow> (bboxQuery, Map.empty, Some err)
         | Inr bboxAsWKT \<Rightarrow>
             (bboxQuery,
              [''fid'' \<mapsto> AInt64 (FID (Cursor opt)),
               ''limit'' \<mapsto> AInt (Limit opt),
               ''bboxWkt'' \<mapsto> AString bboxAsWKT,
               ''maxx'' \<mapsto> AFloat64 (MaxX bbox),
               ''minx'' \<mapsto> AFloat64 (MinX bbox),
               ''maxy'' \<mapsto> AFloat64 (MaxY bbox),
               ''miny'' \<mapsto> AFloat64 (MinY bbox),
               ''bboxCrs'' \<mapsto> AInt (BboxCrs opt)],
              None)))"

definition makeFeaturesQuery ::
  "'g GeoPackage \<Rightarrow> featureTable \<Rightarrow> FeatureOptions \<Rightarrow> query \<times> sqlargs \<times> string option" where
  "makeFeaturesQuery g table opt =
     (case Bbox opt of
        Some bbox \<Rightarrow> makeBboxQuery g table opt bbox
      | None \<Rightarrow> makeDefaultQuery g table opt)"

definition GetFeatures ::
  "'g GeoPackage \<Rightarrow> string \<Rightarrow> FeatureOptions
     \<Rightarrow> panic + ('g FeatureCollection option \<times> Cursors \<times> string option)" where
  "GetFeatures g collection options =
     (case featureTableByCollectionID g collection of
        None \<Rightarrow>
          Inr (None, noCursors,
               Some (''can'' @ [CHR 0x27] @ ''t query collection '' @ collection
                       @ '' since it doesn'' @ [CHR 0x27] @ ''t exist in geopackage''))
      | Some table \<Rightarrow>
          (case makeFeaturesQuery g table options of
             (query, queryArgs, Some err) \<Rightarrow>
               Inr (None, noCursors, Some (''failed to make features query, error: '' @ err))
           | (query, queryArgs, None) \<Rightarrow>
               (case PrepareNamedContext (backend g) query of
                  Some err \<Rightarrow>
                    Inr (None, noCursors, Some (''failed to prepare query, error: '' @ err))
                | None \<Rightarrow>
                    (case QueryxContext (backend g) query queryArgs of
                       Inl err \<Rightarrow>
                         Inr (None, noCursors, Some (''failed to execute query, error: '' @ err))
                     | Inr rows \<Rightarrow>
                         (case MapRowsToFeaturesPrevNext rows (fidColumn g)
                                 (GeometryColumnName table) (readGpkgGeometry g) of
                            Inl p \<Rightarrow> Inl p
                          | Inr (features, nextPrev, Some err) \<Rightarrow> Inr (None, noCursors, Some err)
                          | Inr (features, None, None) \<Rightarrow> Inr (None, noCursors, None)
                          | Inr (features, Some nextPrev, None) \<Rightarrow>
                              (let result = \<lparr>NumberReturned = length features,
                                              Features = features\<rparr>
                               in Inr (Some result,
                                       NewCursors nextPrev (FiltersChecksum (Cursor options)),
                                       None)))))))"

definition GetFeature ::
  "'g GeoPackage \<Rightarrow> string \<Rightarrow> int64 \<Rightarrow> panic + ('g Feature option \<times> string option)" where
  "GetFeature g collection featureID =
     (case featureTableByCollectionID g collection of
        None \<Rightarrow>
          Inr (None,
               Some (''can'' @ [CHR 0x27] @ ''t query collection '' @ collection
                       @ '' since it doesn'' @ [CHR 0x27] @ ''t exist in geopackage''))
      | Some table \<Rightarrow>
          (let query = FeatureByFidQuery (TableName table) (fidColumn g) in
             (case PrepareNamedContext (backend g) query of
                Some err \<Rightarrow> Inr (None, Some err)
              | None \<Rightarrow>
                  (case QueryxContext (backend g) query [''fid'' \<mapsto> AInt64 featureID] of
                     Inl err \<Rightarrow> Inr (None, Some (''query failed: '' @ err))
                   | Inr rows \<Rightarrow>
                       (case MapRowsToFeaturesPrevNext rows (fidColumn g)
                               (GeometryColumnName table) (readGpkgGeometry g) of
                          Inl p \<Rightarrow> Inl p
                        | Inr (features, nextPrev, Some err) \<Rightarrow> Inr (None, Some err)
                        | Inr (features, nextPrev, None) \<Rightarrow>
                            (case features of
                               [feature] \<Rightarrow> Inr (Some feature, None)
                             | _ \<Rightarrow> Inr (None, None)))))))"

section \<open>Features handlers (\<open>ogc/features/main.go\<close>)\<close>

text \<open>\<open>strings.Split(s, ",")\<close> cuts at every separator and never returns an empty slice.\<close>

fun strings_Split :: "string \<Rightarrow> char \<Rightarrow> string list" where
  "strings_Split [] sep = [[]]"
| "strings_Split (c # cs) sep =
     (if c = sep then [] # strings_Split cs sep
      else (case strings_Split cs sep of
              [] \<Rightarrow> [[c]]
            | p # ps \<Rightarrow> (c # p) # ps))"

text \<open>
  \<open>errors.Join\<close> drops the nil errors; the message of the rest is their messages, one
  per line. No error at all gives nil.
\<close>

fun errors_Join :: "string option list \<Rightarrow> string option" where
  "errors_Join [] = None"
| "errors_Join (None # es) = errors_Join es"
| "errors_Join (Some e # es) =
     (case errors_Join es of
        None \<Rightarrow> Some e
      | Some rest \<Rightarrow> Some (e @ [CHR 0x0A] @ rest))"

text \<open>
  The request as the handlers read it: the parameters of the route and the query
  string. The handler object holds the limits of the configuration, the collections of
  the configuration, the datasource, and the collaborators whose code is outside the
  files at hand: the check for unknown query parameters, the checksum of the filter
  parameters, the content negotiation and \<open>strconv.ParseFloat\<close>.
\<close>

record Request =
  URLParam :: "string \<rightharpoonup> string"
  URLQuery :: Values

definition chi_URLParam :: "Request \<Rightarrow> string \<Rightarrow> string" where
  "chi_URLParam r key = (case URLParam r key of None \<Rightarrow> [] | Some v \<Rightarrow> v)"

record ('g, 'm) Features =
  LimitConfig :: Limit
  collectionsMetadata :: "string \<rightharpoonup> 'm"
  datasource :: "'g GeoPackage"
  validateNoUnknownParams :: "Values \<Rightarrow> string option"
  checksum :: "Values \<Rightarrow> byte list"
  NegotiateFormat :: "Request \<Rightarrow> Format"
  ParseFloat :: "string \<Rightarrow> string + float64"

fun parseFloats :: "(string \<Rightarrow> string + float64) \<Rightarrow> string list \<Rightarrow> string + float64 list" where
  "parseFloats pf [] = Inr []"
| "parseFloats pf (v # vs) =
     (case pf v of
        Inl err \<Rightarrow> Inl (''failed to parse value '' @ v @ '' in bbox, error: '' @ err)
      | Inr x \<Rightarrow> (case parseFloats pf vs of Inl err \<Rightarrow> Inl err | Inr xs \<Rightarrow> Inr (x # xs)))"

definition parseBbox :: "('g, 'm) Features \<Rightarrow> Values \<Rightarrow> Extent option \<times> string option" where
  "parseBbox f params =
     (if Values_Get params bboxParam = [] then (None, None)
      else
        (let bboxValues = strings_Split (Values_Get params bboxParam) (CHR '','') in
           if length bboxValues \<noteq> 4
           then (None, Some (''bbox should contain exactly 4 values ''
                              @ ''seperated by commas: minx,miny,maxx,maxy''))
           else
             (case parseFloats (ParseFloat f) bboxValues of
                Inl err \<Rightarrow> (None, Some err)
              | Inr [a, b, c, d] \<Rightarrow> (Some (a, b, c, d), None)
              | Inr _ \<Rightarrow> (None, None))))"

definition parseFeatureCollectionRequest ::
  "('g, 'm) Features \<Rightarrow> Request \<Rightarrow> string \<times> EncodedCursor \<times> int \<times> Extent option \<times> string option" where
  "parseFeatureCollectionRequest f r =
     (let collectionID = chi_URLParam r ''collectionId'';
          encodedCursor = Values_Get (URLQuery r) cursorParam;
          (limit, limitErr) = parseLimit (LimitConfig f) (URLQuery r);
          (bbox, bboxErr) = parseBbox f (URLQuery r);
          dateTimeErr = parseDateTime (URLQuery r)
      in (collectionID, encodedCursor, limit, bbox, errors_Join [limitErr, bboxErr, dateTimeErr]))"

text \<open>
  What a handler does with the request: \<open>http.Error\<close> with a message and a status,
  \<open>http.NotFound\<close>, one of the renderers of a page of features or of one feature
  (their code is outside the files at hand, so the call and its arguments stand for the
  response), or a panic that unwinds the handler. The message of the 500 for a single
  feature is written without the feature id.
\<close>

datatype 'g handled =
    HttpError string int
  | HttpNotFound
  | FeaturesHTML string Cursors int "'g FeatureCollection"
  | FeaturesGeoJSON string Cursors "'g FeatureCollection"
  | FeaturesJSONFG
  | FeatureHTML string "'g Feature"
  | FeatureGeoJSON string "'g Feature"
  | FeatureJSONFG
  | HandlerPanic panic

definition CollectionContent :: "('g, 'm) Features \<Rightarrow> Request \<Rightarrow> 'g handled" where
  "CollectionContent f r =
     (case parseFeatureCollectionRequest f r of
        (collectionID, encodedCursor, limit, bbox, Some err) \<Rightarrow> HttpError err StatusBadRequest
      | (collectionID, encodedCursor, limit, bbox, None) \<Rightarrow>
          (case validateNoUnknownParams f (URLQuery r) of
             Some err \<Rightarrow> HttpError err StatusBadRequest
           | None \<Rightarrow>
               if collectionsMetadata f collectionID = None then HttpNotFound
               else
                 (case Decode encodedCursor (checksum f (URLQuery r)) of
                    Inl p \<Rightarrow> HandlerPanic p
                  | Inr cursor \<Rightarrow>
                      (case GetFeatures (datasource f) collectionID
                              \<lparr>Cursor = cursor, Limit = limit, Bbox = bbox, BboxCrs = 28992\<rparr> of
                         Inl p \<Rightarrow> HandlerPanic p
                       | Inr (fc, newCursor, Some err) \<Rightarrow>
                           HttpError (''failed to retrieve feature collection '' @ collectionID)
                             StatusInternalServerError
                       | Inr (None, newCursor, None) \<Rightarrow> HttpNotFound
                       | Inr (Some fc, newCursor, None) \<Rightarrow>
                           (case NegotiateFormat f r of
                              FormatHTML \<Rightarrow> FeaturesHTML collectionID newCursor limit fc
                            | FormatJSON \<Rightarrow> FeaturesGeoJSON collectionID newCursor fc
                            | FormatJSONFG \<Rightarrow> FeaturesJSONFG
                            | FormatOther _ \<Rightarrow> HttpNotFound)))))"

definition Feature :: "('g, 'm) Features \<Rightarrow> Request \<Rightarrow> 'g handled" where
  "Feature f r =
     (let collectionID = chi_URLParam r ''collectionId'' in
        (case Atoi (chi_URLParam r ''featureId'') of
           (featureID, Some err) \<Rightarrow> HttpError ''feature ID must be a number'' StatusBadRequest
         | (featureID, None) \<Rightarrow>
             (case validateNoUnknownParams f (URLQuery r) of
                Some err \<Rightarrow> HttpError err StatusBadRequest
              | None \<Rightarrow>
                  (case GetFeature (datasource f) collectionID (word_of_int featureID) of
                     Inl p \<Rightarrow> HandlerPanic p
                   | Inr (feat, Some err) \<Rightarrow>
                       HttpError (''failed to retrieve feature in collection '' @ collectionID)
                         StatusInternalServerError
                   | Inr (None, None) \<Rightarrow> HttpNotFound
                   | Inr (Some feat, None) \<Rightarrow>
                       (case NegotiateFormat f r of
                          FormatHTML \<Rightarrow> FeatureHTML collectionID feat
                        | FormatJSON \<Rightarrow> FeatureGeoJSON collectionID feat
                        | FormatJSONFG \<Rightarrow> FeatureJSONFG
                        | FormatOther _ \<Rightarrow> HttpNotFound)))))"

section \<open>Concrete data for the worked examples\<close>

definition example_limits :: Limit where
  "example_limits = \<lparr>Limit_Default = 10, Limit_Max = 1000\<rparr>"

definition example_inbound :: HTTPRequest where
  "example_inbound =
     \<lparr>ReqURL = ''/tiles/1/2/3'', ReqHost = ''localhost'', ReqHeader = Map.empty,
      RemoteIP = Some ''10.0.0.7'', ReqTLS = False\<rparr>"

definition example_proxy_request :: ProxyRequest where
  "example_proxy_request = \<lparr>In = example_inbound, Out = example_inbound\<rparr>"

text \<open>An upstream tile server that has no tile and says so with an HTML 404.\<close>

definition example_upstream_404 :: "HTTPRequest \<Rightarrow> string + Response" where
  "example_upstream_404 out =
     Inr \<lparr>StatusCode = 404, RHeader = [''Content-Type'' \<mapsto> [''text/html'']], Body = [0x41]\<rparr>"

text \<open>An engine whose template store is empty, and a request that passes validation.\<close>

definition example_engine :: "(unit, unit, unit) Engine" where
  "example_engine =
     \<lparr>validateRequest = (\<lambda>r. None),
      getParsedTemplate = getParsedTemplate_store Map.empty,
      renderHTMLTemplate = (\<lambda>t p b. ''<html></html>''),
      renderNonHTMLTemplate = (\<lambda>t p k. ''{}''),
      formatToMediaType = (\<lambda>f. if f = FormatHTML then ''text/html'' else ''application/json''),
      validateResponse = (\<lambda>c b r. None)\<rparr>"

definition example_key :: TemplateKey where
  "example_key =
     \<lparr>Name = ''features'', Directory = ''ogc/features/templates/'', Format = FormatHTML,
      InstanceName = [], Language = ''nl''\<rparr>"

definition example_writer :: ResponseWriter where
  "example_writer = \<lparr>WHeader = Map.empty, WStatus = None, WBody = []\<rparr>"

text \<open>
  A GeoPackage with one feature table of five addresses, served as the collection
  \<open>addresses\<close>. Geometries stay raw bytes; every row passes the spatial tests.
\<close>

definition example_table :: gpkg_table where
  "example_table =
     \<lparr>OtherColumns = [''geom'', ''street''],
      TableRows = [(1, [VBytes [0x47, 0x50], VString ''Dam'']),
                   (2, [VBytes [0x47, 0x50], VString ''Rokin'']),
                   (3, [VBytes [0x47, 0x50], VString ''Spui'']),
                   (4, [VBytes [0x47, 0x50], VString ''Singel'']),
                   (5, [VBytes [0x47, 0x50], VString ''Damrak''])]\<rparr>"

definition example_sqlite :: sqlite where
  "example_sqlite =
     \<lparr>Tables = [''addresses'' \<mapsto> example_table],
      rtree_overlaps = (\<lambda>args row. True),
      btree_overlaps = (\<lambda>args row. True),
      st_intersects = (\<lambda>args row. True)\<rparr>"

definition example_featureTable :: featureTable where
  "example_featureTable =
     \<lparr>TableName = ''addresses'', Identifier = ''addresses'', GeometryColumnName = ''geom''\<rparr>"

definition example_geopackage :: "(byte list) GeoPackage" where
  "example_geopackage =
     \<lparr>backend = sqlite_DB example_sqlite,
      fidColumn = ''fid'',
      featureTableByCollectionID = [''addresses'' \<mapsto> example_featureTable],
      readGpkgGeometry = (\<lambda>rawGeom. Inr rawGeom),
      wkt_EncodeString = (\<lambda>bbox. Inr ''POLYGON EMPTY'')\<rparr>"

definition example_features :: "(byte list, unit) Features" where
  "example_features =
     \<lparr>LimitConfig = example_limits,
      collectionsMetadata = [''addresses'' \<mapsto> ()],
      datasource = example_geopackage,
      validateNoUnknownParams = (\<lambda>params. None),
      checksum = (\<lambda>params. [0x41, 0x42]),
      NegotiateFormat = (\<lambda>r. FormatJSON),
      ParseFloat = (\<lambda>s. Inl ''invalid syntax'')\<rparr>"

definition example_request :: "string \<Rightarrow> Request" where
  "example_request limit =
     \<lparr>URLParam = [''collectionId'' \<mapsto> ''addresses''], URLQuery = [limitParam \<mapsto> [limit]]\<rparr>"

text \<open>A database whose id column holds text in its only row.\<close>

definition example_text_fid_rows :: Rows where
  "example_text_fid_rows =
     \<lparr>RColumns = Inr [''street'', ''fid'', ''geom''],
      RScans = [Inr [VString ''Dam'', VString ''7'', VBytes [0x47, 0x50]]]\<rparr>"

definition example_text_fid_DB :: DB where
  "example_text_fid_DB =
     \<lparr>PrepareNamedContext = (\<lambda>q. None), QueryxContext = (\<lambda>q args. Inr example_text_fid_rows)\<rparr>"

definition example_text_fid_geopackage :: "(byte list) GeoPackage" where
  "example_text_fid_geopackage = example_geopackage\<lparr>backend := example_text_fid_DB\<rparr>"

definition example_text_fid_features :: "(byte list, unit) Features" where
  "example_text_fid_features = example_features\<lparr>datasource := example_text_fid_geopackage\<rparr>"

definition example_feature_request :: Request where
  "example_feature_request =
     \<lparr>URLParam = [''collectionId'' \<mapsto> ''addresses'', ''featureId'' \<mapsto> ''7''],
      URLQuery = Map.empty\<rparr>"

section \<open>Properties of the cursor codec\<close>

lemmas cursor_eval =
  Decode_def encodeCursor_def DecodeString_def big_Bytes_def big_SetBytes_def big_Int64_def
  separator_def nat_Bytes.simps encode6_def encodeURL_def padChar_def decodeMap_def
  quantum_bytes_def Let_def word_sless_alt

lemma bytes_Split_nonempty: "bytes_Split bs sep \<noteq> []"
  by (induction bs) (auto split: list.splits)

text \<open>
  Claim C1 (round trip \<open>Decode (encodeCursor fid cs) cs = (fid, cs)\<close> for every
  \<open>fid \<ge> 0\<close>): the code breaks it. The feature id 124 is the single byte \<open>0x7C\<close>, the
  separator itself; \<open>bytes.Split\<close> cuts at every separator, so the id part is empty and
  the cursor decodes to the first page instead of to feature 124. A checksum that
  holds the byte \<open>0x7C\<close> is cut in the same way and never equals itself.
\<close>

theorem C1_roundtrip_lost_at_fid_124:
  "Decode (encodeCursor 124 [0x41, 0x42]) [0x41, 0x42]
     = Inr \<lparr>FID = 0, FiltersChecksum = [0x41, 0x42]\<rparr> \<and>
   Decode (encodeCursor 1 [0x41, 0x7C, 0x42]) [0x41, 0x7C, 0x42]
     = Inr \<lparr>FID = 0, FiltersChecksum = [0x41, 0x7C, 0x42]\<rparr>"
  by (simp add: cursor_eval)

text \<open>
  Claim C2 (a cursor encoded with checksum \<open>cs1\<close> and decoded against \<open>cs2 \<noteq> cs1\<close> is
  reset to \<open>(0, cs2)\<close>): the code breaks it. Only the part between the first and the
  second separator is compared, so a changed checksum that continues with a separator
  byte goes unnoticed and the feature id 1 is kept. In the second cursor the id
  \<open>0x017C41424344\<close> holds the separator: what follows it inside the id is taken for
  the checksum, and two different checksums of equal length are not told apart.
\<close>

theorem C2_changed_checksum_not_detected:
  "Decode (encodeCursor 1 [0x41, 0x7C, 0x42]) [0x41]
     = Inr \<lparr>FID = 1, FiltersChecksum = [0x41]\<rparr> \<and>
   Decode (encodeCursor 1633182434116 [0x51, 0x52, 0x53, 0x54]) [0x41, 0x42, 0x43, 0x44]
     = Inr \<lparr>FID = 1, FiltersChecksum = [0x41, 0x42, 0x43, 0x44]\<rparr>"
  by (simp add: cursor_eval)

text \<open>
  Claim C5: the empty cursor decodes to the first page; a cursor that
  \<open>base64.URLEncoding.DecodeString\<close> rejects decodes to the first page; and \<open>Decode\<close>
  always returns a cursor (neither slice read is out of range).
\<close>

theorem C5_decode_errors_give_first_page:
  "Decode [] cs = Inr \<lparr>FID = 0, FiltersChecksum = cs\<rparr> \<and>
   (DecodeString c = None \<longrightarrow> Decode c cs = Inr \<lparr>FID = 0, FiltersChecksum = cs\<rparr>) \<and>
   (\<exists>d. Decode c cs = Inr d)"
  unfolding Decode_def Let_def
  by (auto split: option.splits list.splits simp: bytes_Split_nonempty)

theorem C5_decode_errors_give_first_page_witness:
  "DecodeString ''a?b'' = None \<and>
   Decode [] [1] = Inr \<lparr>FID = 0, FiltersChecksum = [1]\<rparr> \<and>
   Decode ''a?b'' [1] = Inr \<lparr>FID = 0, FiltersChecksum = [1]\<rparr> \<and>
   (\<exists>d. Decode ''a?b'' [1] = Inr d)"
proof -
  have h: "DecodeString ''a?b'' = None" by (simp add: cursor_eval)
  from C5_decode_errors_give_first_page [of "[1]" "''a?b''"] h show ?thesis by simp
qed

text \<open>
  Claim C8: on every return path of \<open>Decode\<close> the checksum of the result is the expected
  checksum passed in, and the feature id is not negative.
\<close>

theorem C8_decode_checksum_and_fid_invariant:
  "\<exists>d. Decode c cs = Inr d \<and> FiltersChecksum d = cs \<and> 0 \<le> sint (FID d)"
  unfolding Decode_def Let_def
  by (auto split: option.splits list.splits simp: word_sless_alt bytes_Split_nonempty)

subsection \<open>The round trip where no separator byte occurs\<close>

text \<open>
  \<open>base64.URLEncoding\<close> decodes what it encoded, \<open>SetBytes\<close> reads what \<open>Bytes\<close> wrote,
  and a payload with a single separator splits into its two parts. So the round trip
  and the reset on a changed checksum hold for every feature id and checksum whose
  bytes do not contain \<open>0x7C\<close>.
\<close>

lemma decodeMap_from_nth:
  "distinct xs \<Longrightarrow> i < length xs \<Longrightarrow> decodeMap_from xs k (xs ! i) = Some (k + i)"
proof (induction xs arbitrary: k i)
  case Nil
  then show ?case by simp
next
  case (Cons a xs)
  show ?case
  proof (cases i)
    case 0
    then show ?thesis by simp
  next
    case (Suc j)
    with Cons.prems have "j < length xs" "xs ! j \<in> set xs" "a \<notin> set xs" "distinct xs"
      by auto
    then have "a \<noteq> xs ! j" by auto
    with Cons.IH [OF \<open>distinct xs\<close> \<open>j < length xs\<close>, of "k + 1"] Suc show ?thesis by simp
  qed
qed

lemma decodeMap_from_notin: "c \<notin> set xs \<Longrightarrow> decodeMap_from xs k c = None"
  by (induction xs arbitrary: k) auto

lemma distinct_encodeURL: "distinct encodeURL"
  by (simp add: encodeURL_def)

lemma length_encodeURL: "length encodeURL = 64"
  by (simp add: encodeURL_def)

lemma decodeMap_encode6: "decodeMap (encode6 v) = Some (v mod 64)"
  unfolding decodeMap_def encode6_def
  using decodeMap_from_nth [OF distinct_encodeURL, of "v mod 64" 0]
  by (simp add: length_encodeURL)

lemma encode6_in: "encode6 v \<in> set encodeURL"
  unfolding encode6_def by (rule nth_mem) (simp add: length_encodeURL)

lemma decodeMap_padChar: "decodeMap padChar = None"
  unfolding decodeMap_def by (rule decodeMap_from_notin) (simp add: encodeURL_def padChar_def)

lemma unat_byte_lt: "unat (b :: byte) < 256"
  using unsigned_less [of b, where 'a = nat] by simp

lemma byte_256_eq_0: "(256 :: byte) = 0"
  by simp

lemma byte_of_sum: "word_of_nat (x * 256 + unat (b :: byte)) = b"
  by (simp add: byte_256_eq_0)

lemma sextets_recombine:
  fixes val :: nat
  shows "(val div 262144) mod 64 * 262144 + (val div 4096) mod 64 * 4096
           + (val div 64) mod 64 * 64 + val mod 64 = val mod 16777216"
proof -
  have a: "val mod 16777216 = 262144 * (val div 262144 mod 64) + val mod 262144"
    using mod_mult2_eq [of val 262144 64] by simp
  have b: "val mod 262144 = 4096 * (val div 4096 mod 64) + val mod 4096"
    using mod_mult2_eq [of val 4096 64] by simp
  have c: "val mod 4096 = 64 * (val div 64 mod 64) + val mod 64"
    using mod_mult2_eq [of val 64 64] by simp
  show ?thesis unfolding a b c by simp
qed

lemma quantum_bytes_3:
  fixes b0 b1 b2 :: byte
  defines "val \<equiv> unat b0 * 65536 + unat b1 * 256 + unat b2"
  shows "quantum_bytes ((val div 262144) mod 64) ((val div 4096) mod 64)
           ((val div 64) mod 64) (val mod 64) = [b0, b1, b2]"
proof -
  have lt: "val < 16777216"
    using unat_byte_lt [of b0] unat_byte_lt [of b1] unat_byte_lt [of b2]
    by (simp add: val_def)
  have v: "(val div 262144) mod 64 * 262144 + (val div 4096) mod 64 * 4096
             + (val div 64) mod 64 * 64 + val mod 64 = val"
    using sextets_recombine [of val] lt by simp
  have d0: "val div 65536 = unat b0"
    using unat_byte_lt [of b1] unat_byte_lt [of b2] by (simp add: val_def)
  have d1: "val div 256 = unat b0 * 256 + unat b1"
    using unat_byte_lt [of b2] by (simp add: val_def)
  have d2: "val = (unat b0 * 256 + unat b1) * 256 + unat b2"
    by (simp add: val_def)
  have w0: "(word_of_nat (val div 65536) :: byte) = b0" by (simp add: d0)
  have w1: "(word_of_nat (val div 256) :: byte) = b1"
    unfolding d1 by (rule byte_of_sum)
  have w2: "(word_of_nat val :: byte) = b2"
    by (subst d2) (rule byte_of_sum)
  show ?thesis
    unfolding quantum_bytes_def Let_def v using w0 w1 w2 by simp
qed

lemma quantum_bytes_2:
  fixes b0 b1 :: byte
  defines "val \<equiv> unat b0 * 65536 + unat b1 * 256"
  shows "take 2 (quantum_bytes ((val div 262144) mod 64) ((val div 4096) mod 64)
           ((val div 64) mod 64) 0) = [b0, b1]"
proof -
  have "val = 64 * (unat b0 * 1024 + unat b1 * 4)"
    by (simp add: val_def)
  then have m: "val mod 64 = 0"
    by (metis mod_mult_self1_is_0)
  have "quantum_bytes ((val div 262144) mod 64) ((val div 4096) mod 64)
           ((val div 64) mod 64) (val mod 64) = [b0, b1, 0]"
    using quantum_bytes_3 [of b0 b1 0] by (simp add: val_def)
  then show ?thesis by (simp add: m)
qed

lemma quantum_bytes_1:
  fixes b0 :: byte
  defines "val \<equiv> unat b0 * 65536"
  shows "take 1 (quantum_bytes ((val div 262144) mod 64) ((val div 4096) mod 64) 0 0) = [b0]"
proof -
  have "val = 64 * (unat b0 * 1024)"
    by (simp add: val_def)
  then have m: "val mod 64 = 0"
    by (metis mod_mult_self1_is_0)
  have "val div 64 = 64 * (unat b0 * 16)"
    by (simp add: val_def)
  then have m2: "(val div 64) mod 64 = 0"
    by (metis mod_mult_self1_is_0)
  have "quantum_bytes ((val div 262144) mod 64) ((val div 4096) mod 64)
           ((val div 64) mod 64) (val mod 64) = [b0, 0, 0]"
    using quantum_bytes_3 [of b0 0 0] by (simp add: val_def)
  then show ?thesis by (simp add: m m2)
qed

lemma decode_quanta_EncodeToString: "decode_quanta (EncodeToString bs) = Some bs"
proof (induction bs rule: EncodeToString.induct)
  case (1 b0 b1 b2 rest)
  define val where "val = unat b0 * 65536 + unat b1 * 256 + unat b2"
  have e: "EncodeToString (b0 # b1 # b2 # rest) =
             encode6 (val div 262144) # encode6 (val div 4096) # encode6 (val div 64)
               # encode6 val # EncodeToString rest"
    by (simp add: val_def Let_def)
  have q: "quantum_bytes ((val div 262144) mod 64) ((val div 4096) mod 64)
             ((val div 64) mod 64) (val mod 64) = [b0, b1, b2]"
    unfolding val_def by (rule quantum_bytes_3)
  have ih: "decode_quanta (EncodeToString rest) = Some rest"
    using 1 by simp
  show ?case
    unfolding e by (simp add: decodeMap_encode6 q ih)
next
  case (2 b0 b1)
  define val where "val = unat b0 * 65536 + unat b1 * 256"
  have e: "EncodeToString [b0, b1] =
             [encode6 (val div 262144), encode6 (val div 4096), encode6 (val div 64), padChar]"
    by (simp add: val_def Let_def)
  have q: "take 2 (quantum_bytes ((val div 262144) mod 64) ((val div 4096) mod 64)
             ((val div 64) mod 64) 0) = [b0, b1]"
    unfolding val_def by (rule quantum_bytes_2)
  show ?case
    unfolding e using q by (simp add: decodeMap_encode6 decodeMap_padChar)
next
  case (3 b0)
  define val where "val = unat b0 * 65536"
  have e: "EncodeToString [b0] =
             [encode6 (val div 262144), encode6 (val div 4096), padChar, padChar]"
    by (simp add: val_def Let_def)
  have q: "take 1 (quantum_bytes ((val div 262144) mod 64) ((val div 4096) mod 64) 0 0) = [b0]"
    unfolding val_def by (rule quantum_bytes_1)
  show ?case
    unfolding e using q by (simp add: decodeMap_encode6 decodeMap_padChar)
next
  case 4
  show ?case by simp
qed

lemma EncodeToString_chars: "set (EncodeToString bs) \<subseteq> insert padChar (set encodeURL)"
  by (induction bs rule: EncodeToString.induct) (auto simp: Let_def encode6_in)

lemma DecodeString_EncodeToString: "DecodeString (EncodeToString bs) = Some bs"
proof -
  have "CHR 0x0A \<notin> insert padChar (set encodeURL)" "CHR 0x0D \<notin> insert padChar (set encodeURL)"
    by (simp_all add: encodeURL_def padChar_def)
  with EncodeToString_chars [of bs]
  have "\<forall>c \<in> set (EncodeToString bs). c \<noteq> CHR 0x0A \<and> c \<noteq> CHR 0x0D"
    by blast
  then have "filter (\<lambda>c. c \<noteq> CHR 0x0A \<and> c \<noteq> CHR 0x0D) (EncodeToString bs) = EncodeToString bs"
    by (simp add: filter_id_conv)
  then show ?thesis
    by (simp add: DecodeString_def decode_quanta_EncodeToString)
qed

lemma EncodeToString_nonempty: "bs \<noteq> [] \<Longrightarrow> EncodeToString bs \<noteq> []"
  by (induction bs rule: EncodeToString.induct) (simp_all add: Let_def)

lemma bytes_Split_no_sep: "sep \<notin> set bs \<Longrightarrow> bytes_Split bs sep = [bs]"
  by (induction bs) auto

lemma bytes_Split_first: "sep \<notin> set a \<Longrightarrow> bytes_Split (a @ sep # b) sep = a # bytes_Split b sep"
  by (induction a) auto

lemma big_SetBytes_snoc: "big_SetBytes (bs @ [b]) = big_SetBytes bs * 256 + unat b"
  by (simp add: big_SetBytes_def)

lemma big_SetBytes_nat_Bytes: "big_SetBytes (nat_Bytes n) = n"
proof (induction n rule: nat_Bytes.induct)
  case (1 n)
  show ?case
  proof (cases "n = 0")
    case True
    then show ?thesis by (simp add: nat_Bytes.simps big_SetBytes_def)
  next
    case False
    have u: "unat (word_of_nat (n mod 256) :: byte) = n mod 256"
      by (simp add: unat_of_nat)
    from False have "nat_Bytes n = nat_Bytes (n div 256) @ [word_of_nat (n mod 256)]"
      by (subst nat_Bytes.simps) simp
    with 1 [OF False] u show ?thesis
      by (simp add: big_SetBytes_snoc)
  qed
qed

lemma big_Int64_roundtrip:
  assumes "0 \<le> sint fid"
  shows "big_Int64 (big_SetBytes (big_Bytes fid)) = fid"
proof -
  from assms have "big_Bytes fid = nat_Bytes (nat (sint fid))"
    by (simp add: big_Bytes_def)
  then have "big_Int64 (big_SetBytes (big_Bytes fid)) = word_of_nat (nat (sint fid))"
    by (simp add: big_SetBytes_nat_Bytes big_Int64_def)
  also have "\<dots> = word_of_int (sint fid)"
    using assms by simp
  also have "\<dots> = fid" by simp
  finally show ?thesis .
qed

lemma Decode_of_payload:
  assumes "DecodeString c = Some decoded" and "c \<noteq> []" and "decoded \<noteq> []"
    and "bytes_Split decoded separator = [part0, part1]"
  shows "Decode c cs2 =
           (if part1 = cs2 \<and> \<not> big_Int64 (big_SetBytes part0) <s 0
            then Inr \<lparr>FID = big_Int64 (big_SetBytes part0), FiltersChecksum = cs2\<rparr>
            else Inr \<lparr>FID = 0, FiltersChecksum = cs2\<rparr>)"
  using assms by (simp add: Decode_def Let_def)

lemma Decode_encodeCursor:
  assumes "separator \<notin> set (big_Bytes fid)" and "separator \<notin> set cs1"
  shows "Decode (encodeCursor fid cs1) cs2 =
           (if cs1 = cs2 \<and> \<not> big_Int64 (big_SetBytes (big_Bytes fid)) <s 0
            then Inr \<lparr>FID = big_Int64 (big_SetBytes (big_Bytes fid)), FiltersChecksum = cs2\<rparr>
            else Inr \<lparr>FID = 0, FiltersChecksum = cs2\<rparr>)"
proof -
  let ?payload = "big_Bytes fid @ separator # cs1"
  have e: "encodeCursor fid cs1 = EncodeToString ?payload"
    by (simp add: encodeCursor_def)
  have ne: "EncodeToString ?payload \<noteq> []"
    by (rule EncodeToString_nonempty) simp
  have sp: "bytes_Split ?payload separator = [big_Bytes fid, cs1]"
    using assms by (simp add: bytes_Split_first bytes_Split_no_sep)
  have pne: "?payload \<noteq> []" by simp
  show ?thesis
    unfolding e
    by (rule Decode_of_payload [OF DecodeString_EncodeToString ne pne sp])
qed

lemma cursor_roundtrip_without_separator_bytes:
  assumes "0 \<le> sint fid" and "separator \<notin> set (big_Bytes fid)" and "separator \<notin> set cs"
  shows "Decode (encodeCursor fid cs) cs = Inr \<lparr>FID = fid, FiltersChecksum = cs\<rparr>"
  using Decode_encodeCursor [OF assms(2,3), of cs] assms(1)
  by (simp add: big_Int64_roundtrip word_sless_alt)

lemma cursor_reset_without_separator_bytes:
  assumes "cs1 \<noteq> cs2" and "separator \<notin> set (big_Bytes fid)" and "separator \<notin> set cs1"
  shows "Decode (encodeCursor fid cs1) cs2 = Inr \<lparr>FID = 0, FiltersChecksum = cs2\<rparr>"
  using Decode_encodeCursor [OF assms(2,3), of cs2] assms(1) by simp

section \<open>Properties of \<open>parseLimit\<close>\<close>

lemmas atoi_eval =
  Atoi_def ParseInt_def ParseUint_def isDigit_def maxUint64_def Let_def

lemmas limit_eval =
  parseLimit_def Values_Get_def limitParam_def err_limit_numeric_def err_limit_negative_def

text \<open>
  Claim C6 as stated fails for a numeric value above the maximum that does not fit an
  \<open>int\<close>: \<open>Atoi\<close> reports a range error, so the maximum is returned together with the
  error \<open>limit must be numeric\<close> and the clamping is not silent.
\<close>

theorem C6_huge_limit_is_rejected:
  "list_all isDigit ''99999999999999999999'' \<and>
   parseLimit \<lparr>Limit_Default = 10, Limit_Max = 1000\<rparr>
       [limitParam \<mapsto> [''99999999999999999999'']]
     = (1000, Some err_limit_numeric)"
  by (simp add: atoi_eval limit_eval)

text \<open>
  Claim C6, amended: \<open>parseLimit\<close> returns the configured default when the \<open>limit\<close>
  parameter is absent or empty; it returns an error for every value that \<open>Atoi\<close>
  rejects (not numeric, or numeric but outside the range of \<open>int\<close>) and for every
  negative value; and for a value that \<open>Atoi\<close> accepts and that is above the configured
  maximum it returns the maximum without an error, provided the maximum is not negative.
\<close>

theorem C6_parseLimit:
  "(Values_Get p0 limitParam = [] \<longrightarrow> fst (parseLimit cfg p0) = Limit_Default cfg) \<and>
   (Values_Get p1 limitParam \<noteq> [] \<and> snd (Atoi (Values_Get p1 limitParam)) \<noteq> None
      \<longrightarrow> snd (parseLimit cfg p1) \<noteq> None) \<and>
   (Atoi (Values_Get p2 limitParam) = (v2, None) \<and> v2 < 0
      \<longrightarrow> snd (parseLimit cfg p2) = Some err_limit_negative) \<and>
   (Values_Get p3 limitParam \<noteq> [] \<and> Atoi (Values_Get p3 limitParam) = (v3, None) \<and>
    Limit_Max cfg < v3 \<and> 0 \<le> Limit_Max cfg
      \<longrightarrow> parseLimit cfg p3 = (Limit_Max cfg, None))"
proof (intro conjI impI)
  assume "Values_Get p0 limitParam = []"
  then show "fst (parseLimit cfg p0) = Limit_Default cfg"
    by (simp add: parseLimit_def Let_def)
next
  assume "Values_Get p1 limitParam \<noteq> [] \<and> snd (Atoi (Values_Get p1 limitParam)) \<noteq> None"
  then show "snd (parseLimit cfg p1) \<noteq> None"
    by (cases "Atoi (Values_Get p1 limitParam)") (auto simp: parseLimit_def Let_def)
next
  assume h: "Atoi (Values_Get p2 limitParam) = (v2, None) \<and> v2 < 0"
  show "snd (parseLimit cfg p2) = Some err_limit_negative"
  proof (cases "Values_Get p2 limitParam = []")
    case True
    with h show ?thesis by (simp add: atoi_eval)
  next
    case False
    with h show ?thesis by (auto simp: parseLimit_def Let_def)
  qed
next
  assume "Values_Get p3 limitParam \<noteq> [] \<and> Atoi (Values_Get p3 limitParam) = (v3, None) \<and>
    Limit_Max cfg < v3 \<and> 0 \<le> Limit_Max cfg"
  then show "parseLimit cfg p3 = (Limit_Max cfg, None)"
    by (auto simp: parseLimit_def Let_def)
qed

theorem C6_parseLimit_witness:
  "fst (parseLimit \<lparr>Limit_Default = 10, Limit_Max = 1000\<rparr> Map.empty) = 10 \<and>
   snd (parseLimit \<lparr>Limit_Default = 10, Limit_Max = 1000\<rparr> [limitParam \<mapsto> [''ten'']]) \<noteq> None \<and>
   snd (parseLimit \<lparr>Limit_Default = 10, Limit_Max = 1000\<rparr> [limitParam \<mapsto> [''-5'']])
     = Some err_limit_negative \<and>
   parseLimit \<lparr>Limit_Default = 10, Limit_Max = 1000\<rparr> [limitParam \<mapsto> [''5000'']]
     = (1000, None)"
proof -
  let ?cfg = "\<lparr>Limit_Default = 10, Limit_Max = 1000\<rparr>"
  have a: "Values_Get Map.empty limitParam = []"
    by (simp add: Values_Get_def)
  have b: "Values_Get [limitParam \<mapsto> [''ten'']] limitParam \<noteq> [] \<and>
           snd (Atoi (Values_Get [limitParam \<mapsto> [''ten'']] limitParam)) \<noteq> None"
    by (simp add: Values_Get_def atoi_eval)
  have c: "Atoi (Values_Get [limitParam \<mapsto> [''-5'']] limitParam) = (- 5, None) \<and> (- 5 :: int) < 0"
    by (simp add: Values_Get_def atoi_eval)
  have d: "Values_Get [limitParam \<mapsto> [''5000'']] limitParam \<noteq> [] \<and>
           Atoi (Values_Get [limitParam \<mapsto> [''5000'']] limitParam) = (5000, None) \<and>
           Limit_Max ?cfg < 5000 \<and> 0 \<le> Limit_Max ?cfg"
    by (simp add: Values_Get_def atoi_eval)
  from C6_parseLimit [of Map.empty ?cfg "[limitParam \<mapsto> [''ten'']]"
      "[limitParam \<mapsto> [''-5'']]" "- 5" "[limitParam \<mapsto> [''5000'']]" 5000] a b c d
  show ?thesis by simp
qed

section \<open>Properties of the engine\<close>

lemmas http_eval =
  http_Error_def WriteHeader_def Write_def Header_Set_def Header_Get_def Header_Values_def
  StatusBadRequest_def StatusNotFound_def StatusNoContent_def StatusInternalServerError_def
  StatusBadGateway_def Let_def

lemma modifyResponse_404:
  assumes "StatusCode proxyRes = StatusNotFound"
  shows "StatusCode (modifyResponse True ov proxyRes) = StatusNoContent"
    and "Body (modifyResponse True ov proxyRes) = []"
    and "Header_Values (RHeader (modifyResponse True ov proxyRes)) ''Content-Length'' = [''0'']"
    and "Header_Values (RHeader (modifyResponse True ov proxyRes)) ''Content-Type''
           = (if ov = [] then [] else [ov])"
  using assms by (simp_all add: modifyResponse_def removeBody_def http_eval)

lemma modifyResponse_overwrite:
  assumes "ov \<noteq> []"
  shows "Header_Values (RHeader (modifyResponse True ov proxyRes)) ''Content-Type'' = [ov]"
  using assms by (simp add: modifyResponse_def removeBody_def http_eval)

text \<open>
  Claim C4 as stated fails when a content-type override is supplied: the override is
  written after \<open>removeBody\<close>, so the 204 that replaces an upstream 404 carries the
  override as its \<open>Content-Type\<close>.
\<close>

theorem C4_204_carries_the_override:
  "Header_Values
     (RHeader (ReverseProxy example_upstream_404 ''http://localhost'' example_proxy_request
                 ''http://tiles/1/2/3'' True ''application/vnd.mapbox-vector-tile''))
     ''Content-Type''
   = [''application/vnd.mapbox-vector-tile'']"
  by (simp add: ReverseProxy_def example_upstream_404_def modifyResponse_def removeBody_def
        http_eval)

text \<open>
  Claim C4, amended: when \<open>ReverseProxy\<close> is invoked with \<open>prefer204 = true\<close> and the
  upstream answers 404, the response has status 204, an empty body and
  \<open>Content-Length\<close> 0, and it has no \<open>Content-Type\<close> unless a non-empty override is
  supplied, which then is its \<open>Content-Type\<close>; and with \<open>prefer204 = true\<close> a non-empty
  override replaces the upstream \<open>Content-Type\<close> whatever the status.
\<close>

theorem C4_ReverseProxy_prefer204:
  assumes "transport (Out (rewrite baseURL target r)) = Inr proxyRes"
  shows "(StatusCode proxyRes = StatusNotFound \<longrightarrow>
            StatusCode (ReverseProxy transport baseURL r target True ov) = StatusNoContent \<and>
            Body (ReverseProxy transport baseURL r target True ov) = [] \<and>
            Header_Values (RHeader (ReverseProxy transport baseURL r target True ov))
                ''Content-Length'' = [''0''] \<and>
            Header_Values (RHeader (ReverseProxy transport baseURL r target True ov))
                ''Content-Type'' = (if ov = [] then [] else [ov])) \<and>
         (ov \<noteq> [] \<longrightarrow>
            Header_Values (RHeader (ReverseProxy transport baseURL r target True ov))
                ''Content-Type'' = [ov])"
  using assms
  by (simp add: ReverseProxy_def modifyResponse_404 modifyResponse_overwrite)

theorem C4_ReverseProxy_prefer204_witness:
  "StatusCode (ReverseProxy example_upstream_404 ''http://localhost'' example_proxy_request
       ''http://tiles/1/2/3'' True ''image/png'') = 204 \<and>
   Body (ReverseProxy example_upstream_404 ''http://localhost'' example_proxy_request
       ''http://tiles/1/2/3'' True ''image/png'') = [] \<and>
   Header_Values (RHeader (ReverseProxy example_upstream_404 ''http://localhost''
       example_proxy_request ''http://tiles/1/2/3'' True ''image/png'')) ''Content-Length''
     = [''0''] \<and>
   Header_Values (RHeader (ReverseProxy example_upstream_404 ''http://localhost''
       example_proxy_request ''http://tiles/1/2/3'' True ''image/png'')) ''Content-Type''
     = [''image/png'']"
proof -
  have t: "example_upstream_404
             (Out (rewrite ''http://localhost'' ''http://tiles/1/2/3'' example_proxy_request))
           = Inr \<lparr>StatusCode = 404, RHeader = [''Content-Type'' \<mapsto> [''text/html'']],
                  Body = [0x41]\<rparr>"
    by (simp add: example_upstream_404_def)
  from t C4_ReverseProxy_prefer204
      [where transport = example_upstream_404 and baseURL = "''http://localhost''"
         and target = "''http://tiles/1/2/3''" and r = example_proxy_request
         and ov = "''image/png''"
         and proxyRes = "\<lparr>StatusCode = 404, RHeader = [''Content-Type'' \<mapsto> [''text/html'']],
                          Body = [0x41]\<rparr>"]
  show ?thesis by (simp add: StatusNotFound_def StatusNoContent_def)
qed

text \<open>
  Claim C10: when the lookup of the parsed template fails (the request passed the
  validation, the store returns no template and an error), \<open>RenderAndServePage\<close> writes
  the 500 response and goes on to the type assertion on the nil template, which panics;
  it does not return after the 500.
\<close>

theorem C10_missing_template_panics_after_500:
  assumes "validateRequest e r = None"
    and "getParsedTemplate e key = (None, Some msg)"
  shows "RenderAndServePage e w r key params breadcrumbs
           = (http_Error w msg StatusInternalServerError, Panicked TypeAssertionFailed)"
  using assms by (simp add: RenderAndServePage_def)

theorem C10_missing_template_panics_after_500_witness:
  "WStatus (fst (RenderAndServePage example_engine example_writer () example_key () ()))
     = Some 500 \<and>
   snd (RenderAndServePage example_engine example_writer () example_key () ())
     = Panicked TypeAssertionFailed"
proof -
  have v: "validateRequest example_engine () = None"
    by (simp add: example_engine_def)
  have g: "getParsedTemplate example_engine example_key
             = (None, Some ''no parsed template with name features'')"
    by (simp add: example_engine_def getParsedTemplate_store_def example_key_def)
  from C10_missing_template_panics_after_500 [OF v g, of example_writer "()" "()"]
  show ?thesis by (simp add: http_eval example_writer_def)
qed

section \<open>Properties of the feature mapper and the datasource\<close>

lemma MapRowsToFeaturesPrevNext_no_rows:
  assumes "RColumns rows = Inr columns" and "RScans rows = []"
  shows "MapRowsToFeaturesPrevNext rows fidCol geomCol geomMapper = Inr ([], None, None)"
  using assms
  by (simp add: MapRowsToFeaturesPrevNext_def MapRowsToFeatures_def prevNextOfRows_def)

text \<open>
  Claim C7: for a collection the datasource knows, when the statement is prepared and
  run without error and the row set holds no row, \<open>GetFeature\<close> returns no feature and
  no error.
\<close>

theorem C7_GetFeature_no_row_is_nil_nil:
  assumes "featureTableByCollectionID g collection = Some table"
    and "PrepareNamedContext (backend g) (FeatureByFidQuery (TableName table) (fidColumn g)) = None"
    and "QueryxContext (backend g) (FeatureByFidQuery (TableName table) (fidColumn g))
           [''fid'' \<mapsto> AInt64 featureID] = Inr rows"
    and "RColumns rows = Inr columns"
    and "RScans rows = []"
  shows "GetFeature g collection featureID = Inr (None, None)"
  using assms
  by (simp add: GetFeature_def MapRowsToFeaturesPrevNext_no_rows)

lemmas example_eval =
  example_geopackage_def example_featureTable_def example_sqlite_def example_table_def
  example_features_def example_limits_def example_request_def sqlite_DB_def
  sqlite_QueryxContext_def open_rows_def

theorem C7_GetFeature_no_row_is_nil_nil_witness:
  "GetFeature example_geopackage ''addresses'' 99 = Inr (None, None)"
proof -
  have a: "featureTableByCollectionID example_geopackage ''addresses'' = Some example_featureTable"
    by (simp add: example_geopackage_def)
  have b: "PrepareNamedContext (backend example_geopackage)
             (FeatureByFidQuery (TableName example_featureTable) (fidColumn example_geopackage))
           = None"
    by (simp add: example_geopackage_def sqlite_DB_def)
  have c: "QueryxContext (backend example_geopackage)
             (FeatureByFidQuery (TableName example_featureTable) (fidColumn example_geopackage))
             [''fid'' \<mapsto> AInt64 99]
           = Inr \<lparr>RColumns = Inr [''fid'', ''geom'', ''street''], RScans = []\<rparr>"
    by (simp add: example_eval run_FeatureByFidQuery_def sql_limit_def)
  from C7_GetFeature_no_row_is_nil_nil [OF a b c]
  show ?thesis by simp
qed

lemma mapColumnsToFeature_append:
  "length pre = length vpre \<Longrightarrow>
   mapColumnsToFeature feature (pre @ cs) (vpre @ vs) fidCol geomCol gm =
     (case mapColumnsToFeature feature pre vpre fidCol geomCol gm of
        Inl p \<Rightarrow> Inl p
      | Inr (f', Some e) \<Rightarrow> Inr (f', Some e)
      | Inr (f', None) \<Rightarrow> mapColumnsToFeature f' cs vs fidCol geomCol gm)"
proof (induction pre arbitrary: vpre feature)
  case Nil
  then show ?case by simp
next
  case (Cons c pre)
  then obtain v vpre' where v: "vpre = v # vpre'" and l: "length pre = length vpre'"
    by (cases vpre) auto
  show ?case
    unfolding v append_Cons
    by (cases v) (simp_all add: Cons.IH [OF l] split: sum.splits)
qed

lemma mapColumnsToFeature_bad_fid:
  assumes "v \<noteq> VNil" and "\<forall>n. v \<noteq> VInt64 n"
  shows "mapColumnsToFeature feature (fidCol # cs) (v # vs) fidCol geomCol gm
           = Inl TypeAssertionFailed"
  using assms by (cases v) simp_all


text \<open>
  Claim C9 as stated fails when a column before the id column already makes the mapper
  return an error: here the geometry column comes first and holds text, so the mapper
  returns the geometry error and never reaches the id column, which holds text as well.
\<close>

theorem C9_earlier_column_error_wins:
  "mapColumnsToFeature (newFeature :: (byte list) Feature) [''geom'', ''fid'']
       [VString ''POINT(1 2)'', VString ''7''] ''fid'' ''geom'' (\<lambda>rawGeom. Inr rawGeom)
     = Inr (newFeature, Some ''failed to read geometry from geom column in datastore'')"
  by simp

text \<open>
  Claim C9, amended: the conversion of the id column is an unchecked type assertion; for
  a row whose id column holds a value that is neither nil nor an \<open>int64\<close>, the mapper
  panics instead of returning an error, unless a column before it has already made the
  mapper return an error. The panic leaves \<open>MapRowsToFeatures\<close>, \<open>GetFeature\<close> and the
  handler \<open>Feature\<close> as a panic, not as the 500 response with the generic message.
\<close>

theorem C9_unchecked_fid_assertion_panics:
  assumes "length pre = length vpre"
    and "mapColumnsToFeature newFeature pre vpre (fidColumn g) (GeometryColumnName table)
           (readGpkgGeometry g) = Inr (feature', None)"
    and "v \<noteq> VNil" and "\<forall>n. v \<noteq> VInt64 n"
    and "featureTableByCollectionID g collection = Some table"
    and "PrepareNamedContext (backend g) (FeatureByFidQuery (TableName table) (fidColumn g)) = None"
    and "QueryxContext (backend g) (FeatureByFidQuery (TableName table) (fidColumn g))
           [''fid'' \<mapsto> AInt64 (word_of_int featureID)] = Inr rows"
    and "RColumns rows = Inr (pre @ fidColumn g # post)"
    and "RScans rows = Inr (vpre @ v # vpost) # rest"
    and "datasource f = g"
    and "chi_URLParam r ''collectionId'' = collection"
    and "Atoi (chi_URLParam r ''featureId'') = (featureID, None)"
    and "validateNoUnknownParams f (URLQuery r) = None"
  shows "mapColumnsToFeature newFeature (pre @ fidColumn g # post) (vpre @ v # vpost)
             (fidColumn g) (GeometryColumnName table) (readGpkgGeometry g)
           = Inl TypeAssertionFailed \<and>
         GetFeature g collection (word_of_int featureID) = Inl TypeAssertionFailed \<and>
         Feature f r = HandlerPanic TypeAssertionFailed"
proof -
  have m: "mapColumnsToFeature newFeature (pre @ fidColumn g # post) (vpre @ v # vpost)
             (fidColumn g) (GeometryColumnName table) (readGpkgGeometry g)
           = Inl TypeAssertionFailed"
  proof -
    have "mapColumnsToFeature newFeature (pre @ fidColumn g # post) (vpre @ v # vpost)
            (fidColumn g) (GeometryColumnName table) (readGpkgGeometry g)
          = mapColumnsToFeature feature' (fidColumn g # post) (v # vpost)
              (fidColumn g) (GeometryColumnName table) (readGpkgGeometry g)"
      using assms(1,2)
      by (simp add: mapColumnsToFeature_append del: mapColumnsToFeature.simps)
    also have "\<dots> = Inl TypeAssertionFailed"
      using assms(3,4) by (rule mapColumnsToFeature_bad_fid)
    finally show ?thesis .
  qed
  have rs: "MapRowsToFeaturesPrevNext rows (fidColumn g) (GeometryColumnName table)
              (readGpkgGeometry g) = Inl TypeAssertionFailed"
    using m assms(8,9) by (simp add: MapRowsToFeaturesPrevNext_def MapRowsToFeatures_def)
  have gf: "GetFeature g collection (word_of_int featureID) = Inl TypeAssertionFailed"
    using rs assms(5-7) by (simp add: GetFeature_def)
  have h: "Feature f r = HandlerPanic TypeAssertionFailed"
    using gf assms(10-13) by (simp add: Feature_def)
  from m gf h show ?thesis by simp
qed

theorem C9_unchecked_fid_assertion_panics_witness:
  "mapColumnsToFeature (newFeature :: (byte list) Feature) [''street'', ''fid'', ''geom'']
       [VString ''Dam'', VString ''7'', VBytes [0x47, 0x50]] ''fid'' ''geom''
       (\<lambda>rawGeom. Inr rawGeom)
     = Inl TypeAssertionFailed \<and>
   GetFeature example_text_fid_geopackage ''addresses'' 7 = Inl TypeAssertionFailed \<and>
   Feature example_text_fid_features example_feature_request = HandlerPanic TypeAssertionFailed"
proof -
  let ?g = example_text_fid_geopackage
  have g: "fidColumn ?g = ''fid''" "readGpkgGeometry ?g = (\<lambda>rawGeom. Inr rawGeom)"
    "backend ?g = example_text_fid_DB"
    "featureTableByCollectionID ?g ''addresses'' = Some example_featureTable"
    by (simp_all add: example_text_fid_geopackage_def example_geopackage_def)
  have t: "GeometryColumnName example_featureTable = ''geom''"
    "TableName example_featureTable = ''addresses''"
    by (simp_all add: example_featureTable_def)
  have a1: "length [''street''] = length [VString ''Dam'']" by simp
  have a2: "mapColumnsToFeature (newFeature :: (byte list) Feature) [''street'']
              [VString ''Dam''] (fidColumn ?g) (GeometryColumnName example_featureTable)
              (readGpkgGeometry ?g)
            = Inr (newFeature\<lparr>Properties := [''street'' \<mapsto> VString ''Dam'']\<rparr>, None)"
    by (simp add: g t boundingBoxColumns_def newFeature_def)
  have a3: "VString ''7'' \<noteq> VNil" "\<forall>n. VString ''7'' \<noteq> VInt64 n" by simp_all
  have a6: "PrepareNamedContext (backend ?g)
              (FeatureByFidQuery (TableName example_featureTable) (fidColumn ?g)) = None"
    by (simp add: g example_text_fid_DB_def)
  have a7: "QueryxContext (backend ?g)
              (FeatureByFidQuery (TableName example_featureTable) (fidColumn ?g))
              [''fid'' \<mapsto> AInt64 (word_of_int 7)] = Inr example_text_fid_rows"
    by (simp add: g example_text_fid_DB_def)
  have a8: "RColumns example_text_fid_rows = Inr ([''street''] @ fidColumn ?g # [''geom''])"
    by (simp add: g example_text_fid_rows_def)
  have a9: "RScans example_text_fid_rows
              = Inr ([VString ''Dam''] @ VString ''7'' # [VBytes [0x47, 0x50]]) # []"
    by (simp add: example_text_fid_rows_def)
  have a10: "datasource example_text_fid_features = ?g"
    by (simp add: example_text_fid_features_def)
  have a11: "chi_URLParam example_feature_request ''collectionId'' = ''addresses''"
    by (simp add: chi_URLParam_def example_feature_request_def)
  have a12: "Atoi (chi_URLParam example_feature_request ''featureId'') = (7, None)"
    by (simp add: chi_URLParam_def example_feature_request_def atoi_eval)
  have a13: "validateNoUnknownParams example_text_fid_features
               (URLQuery example_feature_request) = None"
    by (simp add: example_text_fid_features_def example_features_def)
  from C9_unchecked_fid_assertion_panics
    [OF a1 a2 a3 g(4) a6 a7 a8 a9 a10 a11 a12 a13]
  show ?thesis by (simp add: g t)
qed

section \<open>Properties of the feature-collection request\<close>

lemma select_page_limit_0: "select_page fid 0 next prev = []"
  by (simp add: select_page_def sql_limit_def)

lemma run_DefaultQuery_limit_0: "run_DefaultQuery t fid 0 = []"
  by (simp add: run_DefaultQuery_def Let_def select_page_limit_0)

lemma run_BboxQuery_limit_0: "run_BboxQuery s args t fid 0 = []"
  by (simp add: run_BboxQuery_def Let_def select_page_limit_0)

lemma sqlite_limit_0_no_rows:
  assumes "args ''limit'' = Some (AInt 0)"
    and "q = DefaultQuery tableName fidCol \<or> q = BboxQuery tableName fidCol geomCol"
    and "sqlite_QueryxContext s q args = Inr rows"
  shows "RScans rows = [] \<and> (\<exists>columns. RColumns rows = Inr columns)"
  using assms
  by (auto simp: sqlite_QueryxContext_def open_rows_def run_DefaultQuery_limit_0
        run_BboxQuery_limit_0 split: option.splits sqlarg.splits)

lemma makeFeaturesQuery_limit:
  assumes "makeFeaturesQuery g table opt = (q, args, None)"
  shows "args ''limit'' = Some (AInt (Limit opt)) \<and>
         (q = DefaultQuery (TableName table) (fidColumn g) \<or>
          q = BboxQuery (TableName table) (fidColumn g) (GeometryColumnName table))"
  using assms
  by (auto simp: makeFeaturesQuery_def makeDefaultQuery_def makeBboxQuery_def Let_def
        split: option.splits sum.splits)

lemma GetFeatures_limit_0:
  assumes "backend g = sqlite_DB s" and "Limit opt = 0"
  shows "\<exists>e. GetFeatures g collection opt = Inr (None, noCursors, e)"
proof (cases "featureTableByCollectionID g collection")
  case None
  then show ?thesis by (simp add: GetFeatures_def)
next
  case (Some table)
  obtain q args merr where mk: "makeFeaturesQuery g table opt = (q, args, merr)"
    by (cases "makeFeaturesQuery g table opt") auto
  show ?thesis
  proof (cases merr)
    case (Some err)
    with mk \<open>featureTableByCollectionID g collection = Some table\<close> show ?thesis
      by (simp add: GetFeatures_def)
  next
    case None
    note ok = mk [unfolded None]
    from makeFeaturesQuery_limit [OF ok] assms(2)
    have lim: "args ''limit'' = Some (AInt 0)"
      and shape: "q = DefaultQuery (TableName table) (fidColumn g) \<or>
                  q = BboxQuery (TableName table) (fidColumn g) (GeometryColumnName table)"
      by simp_all
    have prep: "PrepareNamedContext (backend g) q = None"
      by (simp add: assms(1) sqlite_DB_def)
    show ?thesis
    proof (cases "sqlite_QueryxContext s q args")
      case (Inl err)
      with ok prep \<open>featureTableByCollectionID g collection = Some table\<close> show ?thesis
        by (simp add: GetFeatures_def assms(1) sqlite_DB_def)
    next
      case (Inr rows)
      from sqlite_limit_0_no_rows [OF lim shape Inr]
      obtain columns where "RScans rows = []" and "RColumns rows = Inr columns" by blast
      then have "MapRowsToFeaturesPrevNext rows (fidColumn g) (GeometryColumnName table)
                   (readGpkgGeometry g) = Inr ([], None, None)"
        by (rule MapRowsToFeaturesPrevNext_no_rows [rotated])
      with ok prep Inr \<open>featureTableByCollectionID g collection = Some table\<close> show ?thesis
        by (simp add: GetFeatures_def assms(1) sqlite_DB_def)
    qed
  qed
qed

lemma errors_Join_None: "errors_Join (e # es) = None \<Longrightarrow> e = None"
  by (cases e) (auto split: option.splits)

lemma parseLimit_of_0:
  assumes "Values_Get params limitParam = ''0''" and "parseLimit cfg params = (limit, None)"
  shows "limit = 0"
  using assms by (auto simp: parseLimit_def atoi_eval split: if_splits)

lemma Decode_returns: "\<exists>d. Decode c cs = Inr d"
  unfolding Decode_def Let_def
  by (auto split: option.splits list.splits simp: bytes_Split_nonempty)

lemma GetFeatures_limit_0_known_table:
  assumes "backend g = sqlite_DB s" and "Limit opt = 0" and "Bbox opt = None"
    and "featureTableByCollectionID g collection = Some table"
    and "Tables s (TableName table) = Some t"
  shows "GetFeatures g collection opt = Inr (None, noCursors, None)"
  using assms
  by (simp add: GetFeatures_def makeFeaturesQuery_def makeDefaultQuery_def sqlite_DB_def
        sqlite_QueryxContext_def run_DefaultQuery_limit_0 open_rows_def
        MapRowsToFeaturesPrevNext_no_rows)

lemma CollectionContent_limit_0:
  assumes "backend (datasource f) = sqlite_DB s"
    and "Values_Get (URLQuery r) limitParam = ''0''"
  shows "CollectionContent f r = HttpNotFound \<or>
         (\<exists>msg. CollectionContent f r = HttpError msg StatusBadRequest) \<or>
         (\<exists>msg. CollectionContent f r = HttpError msg StatusInternalServerError)"
proof -
  obtain limit limitErr where pl: "parseLimit (LimitConfig f) (URLQuery r) = (limit, limitErr)"
    by (cases "parseLimit (LimitConfig f) (URLQuery r)") auto
  obtain bbox bboxErr where pb: "parseBbox f (URLQuery r) = (bbox, bboxErr)"
    by (cases "parseBbox f (URLQuery r)") auto
  let ?err = "errors_Join [limitErr, bboxErr, parseDateTime (URLQuery r)]"
  let ?cid = "chi_URLParam r ''collectionId''"
  have req: "parseFeatureCollectionRequest f r
               = (?cid, Values_Get (URLQuery r) cursorParam, limit, bbox, ?err)"
    by (simp add: parseFeatureCollectionRequest_def pl pb)
  show ?thesis
  proof (cases ?err)
    case (Some e)
    then show ?thesis by (simp add: CollectionContent_def req)
  next
    case None
    then have "limitErr = None" by (rule errors_Join_None)
    with pl assms(2) have l0: "limit = 0" by (simp add: parseLimit_of_0)
    obtain cursor where dc: "Decode (Values_Get (URLQuery r) cursorParam)
                               (checksum f (URLQuery r)) = Inr cursor"
      using Decode_returns by blast
    have "Limit \<lparr>Cursor = cursor, Limit = limit, Bbox = bbox, BboxCrs = 28992\<rparr> = 0"
      by (simp add: l0)
    from GetFeatures_limit_0 [OF assms(1) this]
    obtain e where gf: "GetFeatures (datasource f) ?cid
          \<lparr>Cursor = cursor, Limit = limit, Bbox = bbox, BboxCrs = 28992\<rparr>
        = Inr (None, noCursors, e)"
      by blast
    show ?thesis
      by (cases e; cases "validateNoUnknownParams f (URLQuery r)")
         (simp_all add: CollectionContent_def req None dc gf)
  qed
qed

lemma CollectionContent_limit_0_valid:
  assumes "backend (datasource f) = sqlite_DB s"
    and "Values_Get (URLQuery r) limitParam = ''0''"
    and "0 \<le> Limit_Max (LimitConfig f)"
    and "Values_Get (URLQuery r) bboxParam = []"
    and "Values_Get (URLQuery r) dateTimeParam = []"
    and "validateNoUnknownParams f (URLQuery r) = None"
    and "featureTableByCollectionID (datasource f) (chi_URLParam r ''collectionId'') = Some table"
    and "Tables s (TableName table) = Some t"
  shows "CollectionContent f r = HttpNotFound"
proof -
  let ?cid = "chi_URLParam r ''collectionId''"
  have pl: "parseLimit (LimitConfig f) (URLQuery r) = (0, None)"
    using assms(2,3) by (simp add: parseLimit_def atoi_eval)
  have req: "parseFeatureCollectionRequest f r
               = (?cid, Values_Get (URLQuery r) cursorParam, 0, None, None)"
    using assms(4,5)
    by (simp add: parseFeatureCollectionRequest_def pl parseBbox_def parseDateTime_def)
  obtain cursor where dc: "Decode (Values_Get (URLQuery r) cursorParam)
                             (checksum f (URLQuery r)) = Inr cursor"
    using Decode_returns by blast
  have gf: "GetFeatures (datasource f) ?cid
              \<lparr>Cursor = cursor, Limit = 0, Bbox = None, BboxCrs = 28992\<rparr>
            = Inr (None, noCursors, None)"
    by (rule GetFeatures_limit_0_known_table [OF assms(1) _ _ assms(7,8)]) simp_all
  show ?thesis
    by (simp add: CollectionContent_def req assms(6) dc gf)
qed

text \<open>
  Claim C3 as stated fails: for \<open>limit = 0\<close> on a collection of five features the final
  \<open>limit 0\<close> of the query leaves no row, the mapper has no row to read the neighbouring
  ids from, \<open>GetFeatures\<close> returns a nil collection, and the handler answers not-found.
\<close>

theorem C3_limit_0_is_not_found:
  "length (TableRows example_table) = 5 \<and>
   CollectionContent example_features (example_request ''0'') = HttpNotFound"
proof -
  have "CollectionContent example_features (example_request ''0'') = HttpNotFound"
    by (rule CollectionContent_limit_0_valid
              [where s = example_sqlite and table = example_featureTable and t = example_table])
       (simp_all add: example_eval Values_Get_def chi_URLParam_def limitParam_def
          bboxParam_def dateTimeParam_def)
  then show ?thesis by (simp add: example_table_def)
qed

text \<open>
  Claim C3, amended: for a feature-collection request with \<open>limit = 0\<close> the query yields
  no row whatever the collection holds, \<open>GetFeatures\<close> returns a nil collection with
  empty cursors, and the handler never answers with a page or a next cursor: the
  response is not-found, or a 400 or 500 error when the request or the datasource fails
  otherwise. When the rest of the request is valid and the collection has its table,
  the response is not-found.
\<close>

theorem C3_limit_0_never_yields_a_page:
  assumes "backend (datasource f) = sqlite_DB s"
    and "Values_Get (URLQuery r) limitParam = ''0''"
  shows "(CollectionContent f r = HttpNotFound \<or>
          (\<exists>msg. CollectionContent f r = HttpError msg StatusBadRequest) \<or>
          (\<exists>msg. CollectionContent f r = HttpError msg StatusInternalServerError)) \<and>
         (0 \<le> Limit_Max (LimitConfig f) \<and>
          Values_Get (URLQuery r) bboxParam = [] \<and>
          Values_Get (URLQuery r) dateTimeParam = [] \<and>
          validateNoUnknownParams f (URLQuery r) = None \<and>
          featureTableByCollectionID (datasource f) (chi_URLParam r ''collectionId'') = Some table \<and>
          Tables s (TableName table) = Some t
            \<longrightarrow> CollectionContent f r = HttpNotFound)"
  using CollectionContent_limit_0 [OF assms] CollectionContent_limit_0_valid [OF assms]
  by blast

theorem C3_limit_0_never_yields_a_page_witness:
  "CollectionContent example_features (example_request ''0'') = HttpNotFound"
proof -
  have a: "backend (datasource example_features) = sqlite_DB example_sqlite"
    by (simp add: example_features_def example_geopackage_def)
  have b: "Values_Get (URLQuery (example_request ''0'')) limitParam = ''0''"
    by (simp add: example_request_def Values_Get_def)
  have c: "0 \<le> Limit_Max (LimitConfig example_features) \<and>
           Values_Get (URLQuery (example_request ''0'')) bboxParam = [] \<and>
           Values_Get (URLQuery (example_request ''0'')) dateTimeParam = [] \<and>
           validateNoUnknownParams example_features (URLQuery (example_request ''0'')) = None \<and>
           featureTableByCollectionID (datasource example_features)
             (chi_URLParam (example_request ''0'') ''collectionId'') = Some example_featureTable \<and>
           Tables example_sqlite (TableName example_featureTable) = Some example_table"
    by (simp add: example_eval Values_Get_def chi_URLParam_def limitParam_def
          bboxParam_def dateTimeParam_def)
  from C3_limit_0_never_yields_a_page
         [OF a b, where table = example_featureTable and t = example_table] c
  show ?thesis by blast
qed

subsection \<open>The first two pages of the example collection\<close>

text \<open>
  For contrast with \<open>limit = 0\<close>: with \<open>limit = 2\<close> the query over the five addresses
  returns the features 1 and 2 and the id 3 as the start of the next page; from the
  cursor at 3 it returns 3 and 4, with 1 before and 5 after.
\<close>

lemma example_first_page_rows:
  "run_DefaultQuery example_table 0 2 =
     [[VInt64 1, VBytes [0x47, 0x50], VString ''Dam'', VNil, VInt64 3],
      [VInt64 2, VBytes [0x47, 0x50], VString ''Rokin'', VNil, VNil]]"
  by (simp add: run_DefaultQuery_def select_page_def nextprevfeat_def sql_limit_def
        order_by_fid_def Let_def example_table_def)

lemma example_second_page_rows:
  "run_DefaultQuery example_table 3 2 =
     [[VInt64 3, VBytes [0x47, 0x50], VString ''Spui'', VInt64 1, VInt64 5],
      [VInt64 4, VBytes [0x47, 0x50], VString ''Singel'', VInt64 2, VNil]]"
  by (simp add: run_DefaultQuery_def select_page_def nextprevfeat_def sql_limit_def
        order_by_fid_def Let_def example_table_def)

lemma example_first_page:
  "(case GetFeatures example_geopackage ''addresses''
           \<lparr>Cursor = \<lparr>FID = 0, FiltersChecksum = [0x41, 0x42]\<rparr>, Limit = 2, Bbox = None,
            BboxCrs = 28992\<rparr> of
      Inr (Some fc, cursors, None) \<Rightarrow>
        map ID (Features fc) = [1, 2] \<and> NumberReturned fc = 2 \<and>
        HasNext cursors \<and> \<not> HasPrev cursors \<and>
        Decode (NextC cursors) [0x41, 0x42] = Inr \<lparr>FID = 3, FiltersChecksum = [0x41, 0x42]\<rparr>
    | _ \<Rightarrow> False)"
proof -
  have rows: "sqlite_QueryxContext example_sqlite (DefaultQuery ''addresses'' ''fid'')
                [''fid'' \<mapsto> AInt64 0, ''limit'' \<mapsto> AInt 2]
              = Inr (open_rows [''fid'', ''geom'', ''street'', ''prevfid'', ''nextfid'']
                       (run_DefaultQuery example_table 0 2))"
    by (simp add: example_sqlite_def sqlite_QueryxContext_def example_table_def)
  have nxt: "Decode (encodeCursor 3 [0x41, 0x42]) [0x41, 0x42]
                = Inr \<lparr>FID = 3, FiltersChecksum = [0x41, 0x42]\<rparr>"
    by (simp add: cursor_eval)
  show ?thesis
    unfolding GetFeatures_def makeFeaturesQuery_def makeDefaultQuery_def
    by (simp add: example_geopackage_def example_featureTable_def sqlite_DB_def rows
          example_first_page_rows open_rows_def
          MapRowsToFeaturesPrevNext_def MapRowsToFeatures_def prevNextOfRows_def
          newFeature_def boundingBoxColumns_def NewCursors_def word_sless_alt nxt)
qed

end
